theory Spec2Isabelle
  imports Complex_Main "HOL-Library.Word" "HOL-Library.Multiset" "HOL-Library.Option_ord"
begin

unbundle bit_operations_syntax

section \<open>Conventions of the embedding\<close>

text \<open>
  The program is one Python module, \<^verbatim>\<open>dz_python.py\<close>: a connection holder, four mapped
  classes, an order-number generator, a routine that stores a fixed catalogue with two
  orders, a listing of orders and an exporter that writes a report document.

  \<^item> A mapped class is a record of its columns. A column that may hold \<^verbatim>\<open>None\<close> is an
    option; \<^verbatim>\<open>id\<close>, \<^verbatim>\<open>created_at\<close> and \<^verbatim>\<open>updated_at\<close> are \<^verbatim>\<open>None\<close> on an object until it
    is inserted. The column \<^verbatim>\<open>id\<close> is the field \<open>id'\<close>; \<^verbatim>\<open>Supplier.name\<close>, \<^verbatim>\<open>Product.name\<close> and
    \<^verbatim>\<open>Product.quantity\<close> are \<open>supplier_name\<close>, \<open>product_name\<close> and \<open>product_quantity\<close>, since
    field names are global.
  \<^item> \<^verbatim>\<open>Float\<close> values are reals. Every amount the program computes is a product or sum of
    the integral prices 100.0, 200.0, 150.0 and quantities below 4, on which binary
    floating point is exact.
  \<^item> Strings are byte lists; text outside ASCII is written as its UTF-8 bytes.
  \<^item> An exception is a value of \<open>error\<close>, returned as \<open>Inl\<close>.
  \<^item> The database behind the connection string is an explicit \<open>store\<close>: the list of
    existing tables and the rows of each of the four tables, in insertion order.
  \<^item> The calls into the ORM (\<^verbatim>\<open>create_all\<close>, \<^verbatim>\<open>Session.add\<close>, \<^verbatim>\<open>Session.commit\<close>,
    \<^verbatim>\<open>Query.all\<close>) are modelled by what they do to the store on a reachable SQLite
    database; input and output failures of the environment are outside the model.
  \<^item> What depends on an argument or on the environment in a way the program does not
    fix is a parameter: \<^verbatim>\<open>sqlalchemy.create_engine\<close>, which refuses some connection
    strings; the random bytes behind \<^verbatim>\<open>uuid.uuid4()\<close>; the readings of
    \<^verbatim>\<open>datetime.utcnow\<close>; the order in which the store yields the rows of a query without
    an ordering clause; the conversion of a float to text; whether a file of a given
    name can be written.
\<close>

datatype error = ArgumentError | IntegrityError | OperationalError | TypeError | OSError

type_synonym timestamp = nat

section \<open>The mapped classes\<close>

text \<open>\<^verbatim>\<open>AbstractTable\<close>: the columns every table shares.\<close>

record abstract_table =
  id' :: "nat option"
  created_at :: "timestamp option"
  updated_at :: "timestamp option"

record supplier = abstract_table +
  supplier_name :: string
  contact_person :: "string option"
  email :: "string option"
  phone :: "string option"
  address :: "string option"

record product = abstract_table +
  product_name :: string
  description :: "string option"
  price :: real
  product_quantity :: "int option"
  supplier_id :: "nat option"

record order = abstract_table +
  order_number :: string
  customer_name :: string
  customer_email :: "string option"
  customer_phone :: "string option"
  total_amount :: "real option"
  status :: "string option"

record order_item = abstract_table +
  order_id :: "nat option"
  product_id :: "nat option"
  quantity :: int
  unit_price :: real
  total_price :: real

section \<open>The store\<close>

record store =
  tables :: "string list"
  suppliers :: "supplier list"
  products :: "product list"
  orders :: "order list"
  order_items :: "order_item list"

text \<open>A database file that does not exist yet: no table at all.\<close>

definition empty_store :: store where
  "empty_store = \<lparr>tables = [], suppliers = [], products = [], orders = [], order_items = []\<rparr>"

text \<open>
  The tables registered on \<^verbatim>\<open>Base.metadata\<close> by the four \<^verbatim>\<open>__tablename__\<close> declarations, in
  the order in which \<^verbatim>\<open>create_all\<close> creates them: a table comes after the tables its
  foreign keys refer to.
\<close>

definition metadata_tables :: "string list" where
  "metadata_tables = [''suppliers'', ''orders'', ''products'', ''order_items'']"

definition empty_table :: "string \<Rightarrow> store \<Rightarrow> store" where
  "empty_table t st =
     (if t = ''suppliers'' then st\<lparr>suppliers := []\<rparr>
      else if t = ''products'' then st\<lparr>products := []\<rparr>
      else if t = ''orders'' then st\<lparr>orders := []\<rparr>
      else if t = ''order_items'' then st\<lparr>order_items := []\<rparr>
      else st)"

text \<open>The statement \<^verbatim>\<open>CREATE TABLE t\<close>: an error when the table is there already.\<close>

definition create_table :: "string \<Rightarrow> store \<Rightarrow> error + store" where
  "create_table t st =
     (if t \<in> set (tables st) then Inl OperationalError
      else Inr ((empty_table t st)\<lparr>tables := tables st @ [t]\<rparr>))"

text \<open>
  \<^verbatim>\<open>MetaData.create_all\<close> with its default \<^verbatim>\<open>checkfirst=True\<close>: each table is looked up
  first, and \<^verbatim>\<open>CREATE TABLE\<close> is issued only for a table the store lacks.
\<close>

fun create_all_tables :: "string list \<Rightarrow> store \<Rightarrow> error + store" where
  "create_all_tables [] st = Inr st"
| "create_all_tables (t # ts) st =
     (if t \<in> set (tables st) then create_all_tables ts st
      else case create_table t st of
             Inl e \<Rightarrow> Inl e
           | Inr st' \<Rightarrow> create_all_tables ts st')"

definition create_all :: "store \<Rightarrow> error + store" where
  "create_all st = create_all_tables metadata_tables st"

section \<open>DatabaseConnection\<close>

datatype engine = Engine string

datatype sessionmaker = Sessionmaker engine

record database_connection =
  connection_string :: string
  engine :: "engine option"
  SessionLocal :: "sessionmaker option"

text \<open>\<^verbatim>\<open>DatabaseConnection.__init__\<close>.\<close>

definition DatabaseConnection :: "string \<Rightarrow> database_connection" where
  "DatabaseConnection cs = \<lparr>connection_string = cs, engine = None, SessionLocal = None\<rparr>"

text \<open>
  \<^verbatim>\<open>sqlalchemy.create_engine\<close> builds an engine from a connection string it can parse
  and raises otherwise (\<^verbatim>\<open>ArgumentError\<close> for a string that is no URL). Which strings it
  accepts is the library's matter: the function is a parameter \<open>create_engine\<close> of
  everything that may connect.
\<close>

type_synonym engine_factory = "string \<Rightarrow> error + engine"

text \<open>
  \<^verbatim>\<open>connect\<close>. When \<^verbatim>\<open>create_engine\<close> raises, neither attribute has been assigned.
\<close>

definition connect ::
    "engine_factory \<Rightarrow> database_connection \<Rightarrow> (error + engine) \<times> database_connection" where
  "connect create_engine self =
     (case create_engine (connection_string self) of
        Inl err \<Rightarrow> (Inl err, self)
      | Inr e \<Rightarrow>
          (let self1 = self\<lparr>engine := Some e\<rparr>;
               self2 = self1\<lparr>SessionLocal := Some (Sessionmaker e)\<rparr>
           in (Inr e, self2)))"

text \<open>
  A reference to a Python object of one of the mapped classes: the class and the index
  of the object among the objects of that class, in the order of construction.
\<close>

datatype obj_ref = SupplierRef nat | ProductRef nat | OrderRef nat | OrderItemRef nat

text \<open>A session: the engine it is bound to and the objects added and not yet inserted.\<close>

record session =
  bind :: engine
  pending :: "obj_ref list"

text \<open>Calling the session factory.\<close>

fun call_sessionmaker :: "sessionmaker \<Rightarrow> session" where
  "call_sessionmaker (Sessionmaker e) = \<lparr>bind = e, pending = []\<rparr>"

text \<open>
  \<^verbatim>\<open>return self.SessionLocal()\<close>: calling \<^verbatim>\<open>None\<close> would be a \<^verbatim>\<open>TypeError\<close>.
\<close>

definition call_SessionLocal ::
    "database_connection \<Rightarrow> (error + session) \<times> database_connection" where
  "call_SessionLocal self =
     (case SessionLocal self of
        None \<Rightarrow> (Inl TypeError, self)
      | Some mk \<Rightarrow> (Inr (call_sessionmaker mk), self))"

text \<open>\<^verbatim>\<open>get_session\<close>. An exception of \<^verbatim>\<open>connect\<close> leaves the method.\<close>

definition get_session ::
    "engine_factory \<Rightarrow> database_connection \<Rightarrow> (error + session) \<times> database_connection" where
  "get_session create_engine self =
     (if SessionLocal self = None
      then case connect create_engine self of
             (Inl err, self1) \<Rightarrow> (Inl err, self1)
           | (Inr e, self1) \<Rightarrow> call_SessionLocal self1
      else call_SessionLocal self)"

text \<open>
  \<^verbatim>\<open>Base.metadata.create_all(bind=self.engine)\<close>. The engine only names the database; its
  store is passed explicitly.
\<close>

definition call_create_all ::
    "database_connection \<Rightarrow> store \<Rightarrow> (error + unit) \<times> database_connection \<times> store" where
  "call_create_all self st =
     (case create_all st of
        Inl err \<Rightarrow> (Inl err, self, st)
      | Inr st' \<Rightarrow> (Inr (), self, st'))"

text \<open>\<^verbatim>\<open>create_tables\<close>.\<close>

definition create_tables ::
    "engine_factory \<Rightarrow> database_connection \<Rightarrow> store \<Rightarrow>
       (error + unit) \<times> database_connection \<times> store" where
  "create_tables create_engine self st =
     (if engine self = None
      then case connect create_engine self of
             (Inl err, self1) \<Rightarrow> (Inl err, self1, st)
           | (Inr e, self1) \<Rightarrow> call_create_all self1 st
      else call_create_all self st)"

section \<open>Order numbers\<close>

text \<open>
  \<^verbatim>\<open>uuid.uuid4()\<close> reads 16 random bytes as a big-endian 128-bit integer and overwrites the
  variant and version bits; its argument here is that integer.
\<close>

definition uuid4 :: "128 word \<Rightarrow> 128 word" where
  "uuid4 r =
     (let i1 = r AND NOT (push_bit 48 0xC000);
          i2 = i1 OR push_bit 48 0x8000;
          i3 = i2 AND NOT (push_bit 64 0xF000);
          i4 = i3 OR push_bit 76 4
      in i4)"

definition hex_digit :: "nat \<Rightarrow> char" where
  "hex_digit n = ''0123456789abcdef'' ! n"

text \<open>\<^verbatim>\<open>UUID.hex\<close>: the 32 lowercase hexadecimal digits of the integer, highest first.\<close>

definition hex :: "128 word \<Rightarrow> string" where
  "hex u = map (\<lambda>i. hex_digit (unat (drop_bit (4 * (31 - i)) u AND 0xF))) [0..<32]"

text \<open>\<^verbatim>\<open>str.upper\<close> on ASCII text.\<close>

definition upper_char :: "char \<Rightarrow> char" where
  "upper_char c =
     (case map_of (zip ''abcdefghijklmnopqrstuvwxyz'' ''ABCDEFGHIJKLMNOPQRSTUVWXYZ'') c of
        Some d \<Rightarrow> d
      | None \<Rightarrow> c)"

definition upper :: "string \<Rightarrow> string" where
  "upper s = map upper_char s"

definition generate_order_number :: "128 word \<Rightarrow> string" where
  "generate_order_number r = ''ORD-'' @ upper (take 8 (hex (uuid4 r)))"

section \<open>Objects in memory\<close>

text \<open>
  An object of a mapped class carries its columns and, for \<^verbatim>\<open>Product\<close> and \<^verbatim>\<open>OrderItem\<close>,
  the objects its relationships point to. The collections on the other side of each
  relationship (\<^verbatim>\<open>products\<close>, \<^verbatim>\<open>order_items\<close>) are not read by the program and are left out.
\<close>

record product_obj = product +
  supplier :: nat

record order_item_obj = order_item +
  order :: nat
  product :: nat

text \<open>The constructor calls, with the keyword arguments the program passes.\<close>

definition Supplier :: "string \<Rightarrow> string \<Rightarrow> string \<Rightarrow> string \<Rightarrow> supplier" where
  "Supplier name cp em ph =
     \<lparr>id' = None, created_at = None, updated_at = None,
      supplier_name = name, contact_person = Some cp, email = Some em, phone = Some ph,
      address = None\<rparr>"

definition Product :: "string \<Rightarrow> real \<Rightarrow> int \<Rightarrow> nat \<Rightarrow> product_obj" where
  "Product name pr q s =
     \<lparr>id' = None, created_at = None, updated_at = None,
      product_name = name, description = None, price = pr, product_quantity = Some q,
      supplier_id = None, supplier = s\<rparr>"

definition Order :: "string \<Rightarrow> string \<Rightarrow> string \<Rightarrow> string \<Rightarrow> order" where
  "Order num cn ce s =
     \<lparr>id' = None, created_at = None, updated_at = None,
      order_number = num, customer_name = cn, customer_email = Some ce,
      customer_phone = None, total_amount = None, status = Some s\<rparr>"

definition OrderItem :: "nat \<Rightarrow> nat \<Rightarrow> int \<Rightarrow> real \<Rightarrow> real \<Rightarrow> order_item_obj" where
  "OrderItem ord p q up tp =
     \<lparr>id' = None, created_at = None, updated_at = None,
      order_id = None, product_id = None, quantity = q, unit_price = up, total_price = tp,
      order = ord, product = p\<rparr>"

text \<open>
  The objects a run has constructed, by class, in the order of construction. A
  reference is the index of an object in its list, so it is in range from the
  construction on.
\<close>

record heap =
  supplier_objs :: "supplier list"
  product_objs :: "product_obj list"
  order_objs :: "order list"
  order_item_objs :: "order_item_obj list"

definition empty_heap :: heap where
  "empty_heap = \<lparr>supplier_objs = [], product_objs = [], order_objs = [], order_item_objs = []\<rparr>"

definition new_supplier :: "supplier \<Rightarrow> heap \<Rightarrow> nat \<times> heap" where
  "new_supplier obj h = (length (supplier_objs h), h\<lparr>supplier_objs := supplier_objs h @ [obj]\<rparr>)"

definition new_product :: "product_obj \<Rightarrow> heap \<Rightarrow> nat \<times> heap" where
  "new_product obj h = (length (product_objs h), h\<lparr>product_objs := product_objs h @ [obj]\<rparr>)"

definition new_order :: "order \<Rightarrow> heap \<Rightarrow> nat \<times> heap" where
  "new_order obj h = (length (order_objs h), h\<lparr>order_objs := order_objs h @ [obj]\<rparr>)"

definition new_order_item :: "order_item_obj \<Rightarrow> heap \<Rightarrow> nat \<times> heap" where
  "new_order_item obj h =
     (length (order_item_objs h), h\<lparr>order_item_objs := order_item_objs h @ [obj]\<rparr>)"

text \<open>The assignment \<^verbatim>\<open>order.total_amount = total_amount\<close>.\<close>

definition set_total_amount :: "nat \<Rightarrow> real \<Rightarrow> heap \<Rightarrow> heap" where
  "set_total_amount r t h =
     h\<lparr>order_objs := (order_objs h)[r := (order_objs h ! r)\<lparr>total_amount := Some t\<rparr>]\<rparr>"

section \<open>The session\<close>

text \<open>
  \<^verbatim>\<open>session.add(obj)\<close>: the object becomes pending, unless it is already. The routine
  below passes every object it constructs to \<^verbatim>\<open>session.add\<close> itself (the order items, the
  orders, the supplier, the products), so the cascade of \<^verbatim>\<open>add\<close> along relationships
  reaches no object that is not added anyway, and within each class the objects become
  pending in the order of their construction with or without it. The cascade is left
  out.
\<close>

definition session_add :: "obj_ref \<Rightarrow> session \<Rightarrow> session" where
  "session_add r s = (if r \<in> set (pending s) then s else s\<lparr>pending := pending s @ [r]\<rparr>)"

fun supplier_refs :: "obj_ref list \<Rightarrow> nat list" where
  "supplier_refs [] = []"
| "supplier_refs (SupplierRef i # rs) = i # supplier_refs rs"
| "supplier_refs (_ # rs) = supplier_refs rs"

fun product_refs :: "obj_ref list \<Rightarrow> nat list" where
  "product_refs [] = []"
| "product_refs (ProductRef i # rs) = i # product_refs rs"
| "product_refs (_ # rs) = product_refs rs"

fun order_refs :: "obj_ref list \<Rightarrow> nat list" where
  "order_refs [] = []"
| "order_refs (OrderRef i # rs) = i # order_refs rs"
| "order_refs (_ # rs) = order_refs rs"

fun order_item_refs :: "obj_ref list \<Rightarrow> nat list" where
  "order_item_refs [] = []"
| "order_item_refs (OrderItemRef i # rs) = i # order_item_refs rs"
| "order_item_refs (_ # rs) = order_item_refs rs"

text \<open>
  The key a new row gets in SQLite for an \<^verbatim>\<open>INTEGER PRIMARY KEY\<close>: one more than the
  largest key in the table, 1 in an empty table.
\<close>

definition next_id :: "'a abstract_table_scheme list \<Rightarrow> nat" where
  "next_id rows = Suc (fold max (map (\<lambda>r. case id' r of None \<Rightarrow> 0 | Some i \<Rightarrow> i) rows) 0)"

text \<open>The pending objects of one class with the keys their rows get.\<close>

definition new_ids :: "'a abstract_table_scheme list \<Rightarrow> nat list \<Rightarrow> (nat \<times> nat) list" where
  "new_ids rows refs = zip refs [next_id rows ..< next_id rows + length refs]"

text \<open>
  The rows of the pending objects. The \<open>k\<close>-th \<^verbatim>\<open>INSERT\<close> of a flush into a table takes
  its two timestamps from the \<open>k\<close>-th pair of clock readings for that table (\<open>clock\<close>
  below is the one of the table); a column with a default gets
  the default when the attribute is \<^verbatim>\<open>None\<close>; a foreign key is the key of the pending
  object the relationship points to (and stays \<^verbatim>\<open>NULL\<close> for an object that is not pending,
  which the routine below never produces).
\<close>

definition supplier_row ::
    "(nat \<Rightarrow> timestamp \<times> timestamp) \<Rightarrow> heap \<Rightarrow> nat \<times> nat \<times> nat \<Rightarrow> supplier" where
  "supplier_row clock h = (\<lambda>(k, r, i).
     (supplier_objs h ! r)\<lparr>id' := Some i,
        created_at := Some (fst (clock k)), updated_at := Some (snd (clock k))\<rparr>)"

definition product_row ::
    "(nat \<Rightarrow> timestamp \<times> timestamp) \<Rightarrow> heap \<Rightarrow> (nat \<times> nat) list \<Rightarrow> nat \<times> nat \<times> nat \<Rightarrow> product" where
  "product_row clock h sids = (\<lambda>(k, r, i).
     (let obj = product_objs h ! r
      in (product.truncate obj)\<lparr>id' := Some i,
           created_at := Some (fst (clock k)), updated_at := Some (snd (clock k)),
           product_quantity := (case product_quantity obj of None \<Rightarrow> Some 0 | Some q \<Rightarrow> Some q),
           supplier_id := map_of sids (supplier obj)\<rparr>))"

definition order_row ::
    "(nat \<Rightarrow> timestamp \<times> timestamp) \<Rightarrow> heap \<Rightarrow> nat \<times> nat \<times> nat \<Rightarrow> order" where
  "order_row clock h = (\<lambda>(k, r, i).
     (let obj = order_objs h ! r
      in obj\<lparr>id' := Some i,
           created_at := Some (fst (clock k)), updated_at := Some (snd (clock k)),
           total_amount := (case total_amount obj of None \<Rightarrow> Some 0 | Some t \<Rightarrow> Some t),
           status := (case status obj of None \<Rightarrow> Some ''pending'' | Some s \<Rightarrow> Some s)\<rparr>))"

definition order_item_row ::
    "(nat \<Rightarrow> timestamp \<times> timestamp) \<Rightarrow> heap \<Rightarrow> (nat \<times> nat) list \<Rightarrow> (nat \<times> nat) list \<Rightarrow>
       nat \<times> nat \<times> nat \<Rightarrow> order_item" where
  "order_item_row clock h oids pids = (\<lambda>(k, r, i).
     (let obj = order_item_objs h ! r
      in (order_item.truncate obj)\<lparr>id' := Some i,
           created_at := Some (fst (clock k)), updated_at := Some (snd (clock k)),
           order_id := map_of oids (order obj),
           product_id := map_of pids (product obj)\<rparr>))"

text \<open>
  The flush of a commit. The rows go in table by table, in the order of
  \<open>metadata_tables\<close>, so that a row is there before a row that refers to it, and within
  a table in the order in which the objects became pending. The order among the tables
  that do not refer to each other only decides with which error a flush ends when more
  than one of its statements would fail. A table that is missing makes its \<^verbatim>\<open>INSERT\<close> fail
  with \<^verbatim>\<open>OperationalError\<close>; an order number that is in the table already, or twice
  among the new rows, violates \<^verbatim>\<open>unique=True\<close> on \<^verbatim>\<open>Order.order_number\<close> and fails with
  \<^verbatim>\<open>IntegrityError\<close>. The readings of the clock are given by table.
\<close>

definition flush ::
    "(string \<Rightarrow> nat \<Rightarrow> timestamp \<times> timestamp) \<Rightarrow> heap \<Rightarrow> obj_ref list \<Rightarrow> store \<Rightarrow>
       error + store" where
  "flush clock h new st =
     (let srefs = supplier_refs new; orefs = order_refs new;
          prefs = product_refs new; irefs = order_item_refs new;
          sids = new_ids (suppliers st) srefs; oids = new_ids (orders st) orefs;
          pids = new_ids (products st) prefs; iids = new_ids (order_items st) irefs;
          srows = map (supplier_row (clock ''suppliers'') h) (enumerate 0 sids);
          orows = map (order_row (clock ''orders'') h) (enumerate 0 oids);
          prows = map (product_row (clock ''products'') h sids) (enumerate 0 pids);
          irows = map (order_item_row (clock ''order_items'') h oids pids) (enumerate 0 iids)
      in if srefs \<noteq> [] \<and> ''suppliers'' \<notin> set (tables st) then Inl OperationalError
         else if orefs \<noteq> [] \<and> ''orders'' \<notin> set (tables st) then Inl OperationalError
         else if \<not> distinct (map order_number (orders st @ orows)) then Inl IntegrityError
         else if prefs \<noteq> [] \<and> ''products'' \<notin> set (tables st) then Inl OperationalError
         else if irefs \<noteq> [] \<and> ''order_items'' \<notin> set (tables st) then Inl OperationalError
         else Inr (st\<lparr>suppliers := suppliers st @ srows, products := products st @ prows,
                       orders := orders st @ orows, order_items := order_items st @ irows\<rparr>))"

text \<open>
  \<^verbatim>\<open>session.commit()\<close>: the flush and the end of the transaction. When the flush fails the
  transaction is rolled back, so the store is the one from before.
\<close>

definition commit ::
    "(string \<Rightarrow> nat \<Rightarrow> timestamp \<times> timestamp) \<Rightarrow> heap \<Rightarrow> session \<Rightarrow> store \<Rightarrow>
       (error + session) \<times> store" where
  "commit clock h s st =
     (case flush clock h (pending s) st of
        Inl e \<Rightarrow> (Inl e, st)
      | Inr st' \<Rightarrow> (Inr (s\<lparr>pending := []\<rparr>), st'))"

section \<open>WaosaDataFiller\<close>

text \<open>The dictionaries of \<^verbatim>\<open>orders_data\<close>.\<close>

record item_data =
  item_product :: nat
  item_quantity :: int

record order_data =
  data_customer_name :: string
  data_customer_email :: string
  data_items :: "item_data list"

text \<open>
  The body of the inner loop of \<^verbatim>\<open>fill_with_sample_data\<close>, for one entry of
  \<^verbatim>\<open>order_data["items"]\<close>. The state of the loop is the running \<^verbatim>\<open>total_amount\<close> (here
  \<open>amount\<close>), the objects and the session; \<open>ord\<close> is the order under construction.
\<close>

definition item_body ::
    "nat \<Rightarrow> item_data \<Rightarrow> real \<times> heap \<times> session \<Rightarrow> real \<times> heap \<times> session" where
  "item_body ord item_data = (\<lambda>(amount, h, s).
     (let item_total =
            price (product_objs h ! item_product item_data) * of_int (item_quantity item_data);
          (item, h1) =
            new_order_item
              (OrderItem ord (item_product item_data) (item_quantity item_data)
                 (price (product_objs h ! item_product item_data)) item_total) h;
          amount1 = amount + item_total;
          s1 = session_add (OrderItemRef item) s
      in (amount1, h1, s1)))"

fun item_loop :: "nat \<Rightarrow> item_data list \<Rightarrow> real \<times> heap \<times> session \<Rightarrow> real \<times> heap \<times> session" where
  "item_loop ord [] acc = acc"
| "item_loop ord (item_data # rest) acc = item_loop ord rest (item_body ord item_data acc)"

text \<open>
  The body of the outer loop, for one entry of \<^verbatim>\<open>orders_data\<close>. The \<open>k\<close>-th call of
  \<^verbatim>\<open>uuid.uuid4()\<close> in the run draws \<open>rnd k\<close>; the state also counts the calls made.
\<close>

definition order_body ::
    "(nat \<Rightarrow> 128 word) \<Rightarrow> order_data \<Rightarrow> nat \<times> heap \<times> session \<Rightarrow> nat \<times> heap \<times> session" where
  "order_body rnd order_data = (\<lambda>(k, h, s).
     (let (ord, h1) =
            new_order
              (Order (generate_order_number (rnd k)) (data_customer_name order_data)
                 (data_customer_email order_data) ''completed'') h;
          (amount, h2, s2) = item_loop ord (data_items order_data) (0, h1, s);
          h3 = set_total_amount ord amount h2;
          s3 = session_add (OrderRef ord) s2
      in (Suc k, h3, s3)))"

fun order_loop ::
    "(nat \<Rightarrow> 128 word) \<Rightarrow> order_data list \<Rightarrow> nat \<times> heap \<times> session \<Rightarrow> nat \<times> heap \<times> session" where
  "order_loop rnd [] acc = acc"
| "order_loop rnd (order_data # rest) acc = order_loop rnd rest (order_body rnd order_data acc)"

text \<open>
  \<^verbatim>\<open>fill_with_sample_data\<close>; \<open>db\<close> is \<^verbatim>\<open>self.db\<close>. The message printed at the end is not part
  of the model. When \<^verbatim>\<open>get_session\<close> or the commit raises, the exception leaves the
  method.
\<close>

definition fill_with_sample_data ::
    "engine_factory \<Rightarrow> (nat \<Rightarrow> 128 word) \<Rightarrow> (string \<Rightarrow> nat \<Rightarrow> timestamp \<times> timestamp) \<Rightarrow>
       database_connection \<Rightarrow> store \<Rightarrow> (error + unit) \<times> database_connection \<times> store" where
  "fill_with_sample_data create_engine rnd clock db st =
     (case get_session create_engine db of
        (Inl e, db1) \<Rightarrow> (Inl e, db1, st)
      | (Inr s, db1) \<Rightarrow>
          (let (sup, h1) =
                 new_supplier
                   (Supplier ''Waosa Supplier'' ''Waosa Manager'' ''manager@waosa.com''
                      ''123-456-7890'') empty_heap;
               (p0, h2) = new_product (Product ''Waosa Product A'' 100 50 sup) h1;
               (p1, h3) = new_product (Product ''Waosa Product B'' 200 30 sup) h2;
               (p2, h4) = new_product (Product ''Waosa Product C'' 150 20 sup) h3;
               prods = [p0, p1, p2];
               orders_data =
                 [\<lparr>data_customer_name = ''Alice Johnson'',
                   data_customer_email = ''alice@waosa.com'',
                   data_items = [\<lparr>item_product = prods ! 0, item_quantity = 2\<rparr>,
                                 \<lparr>item_product = prods ! 1, item_quantity = 1\<rparr>]\<rparr>,
                  \<lparr>data_customer_name = ''Bob Smith'',
                   data_customer_email = ''bob@waosa.com'',
                   data_items = [\<lparr>item_product = prods ! 2, item_quantity = 3\<rparr>,
                                 \<lparr>item_product = prods ! 0, item_quantity = 1\<rparr>]\<rparr>];
               (k, h5, s1) = order_loop rnd orders_data (0, h4, s);
               s2 = session_add (SupplierRef sup) s1;
               s3 = fold (\<lambda>p. session_add (ProductRef p)) prods s2
           in case commit clock h5 s3 st of
                (Inl e, st1) \<Rightarrow> (Inl e, db1, st1)
              | (Inr s4, st1) \<Rightarrow> (Inr (), db1, st1)))"

section \<open>Predicates of the specification\<close>

text \<open>The pattern \<^verbatim>\<open>ORD-[0-9A-F]{8}\<close>.\<close>

definition matches_order_pattern :: "string \<Rightarrow> bool" where
  "matches_order_pattern s \<longleftrightarrow>
     length s = 12 \<and> take 4 s = ''ORD-'' \<and>
     list_all (\<lambda>c. c \<in> set ''0123456789ABCDEF'') (drop 4 s)"

text \<open>The tables that were there keep their place in the list and their rows.\<close>

definition kept :: "store \<Rightarrow> store \<Rightarrow> bool" where
  "kept st st' \<longleftrightarrow>
     take (length (tables st)) (tables st') = tables st \<and>
     (''suppliers'' \<in> set (tables st) \<longrightarrow> suppliers st' = suppliers st) \<and>
     (''products'' \<in> set (tables st) \<longrightarrow> products st' = products st) \<and>
     (''orders'' \<in> set (tables st) \<longrightarrow> orders st' = orders st) \<and>
     (''order_items'' \<in> set (tables st) \<longrightarrow> order_items st' = order_items st)"

section \<open>OrderManager\<close>

text \<open>
  \<^verbatim>\<open>get_all_orders\<close>; \<open>db\<close> is \<^verbatim>\<open>self.db\<close>. The query \<^verbatim>\<open>session.query(Order).all()\<close> selects
  the rows of the orders table and asks for no ordering; \<open>row_order\<close> is the order in
  which the store yields them. Without the table the query fails.
\<close>

definition get_all_orders ::
    "engine_factory \<Rightarrow> (order list \<Rightarrow> order list) \<Rightarrow> database_connection \<Rightarrow> store \<Rightarrow>
       (error + order list) \<times> database_connection" where
  "get_all_orders create_engine row_order db st =
     (case get_session create_engine db of
        (Inl e, db1) \<Rightarrow> (Inl e, db1)
      | (Inr s, db1) \<Rightarrow>
          (if ''orders'' \<in> set (tables st) then (Inr (row_order (orders st)), db1)
           else (Inl OperationalError, db1)))"

section \<open>ODTExporter\<close>

text \<open>
  A document is the list of its paragraphs, a paragraph is its text, and the files on
  disk are a map from names to documents.
\<close>

type_synonym odf_paragraph = string

type_synonym document = "odf_paragraph list"

definition OpenDocumentText :: document where
  "OpenDocumentText = []"

definition P :: odf_paragraph where
  "P = []"

definition addText :: "string \<Rightarrow> odf_paragraph \<Rightarrow> odf_paragraph" where
  "addText t p = p @ t"

definition addElement :: "odf_paragraph \<Rightarrow> document \<Rightarrow> document" where
  "addElement p doc = doc @ [p]"

text \<open>
  The literal texts of the report, in UTF-8. In Latin letters they read \<^verbatim>\<open>OTChET PO ZAKAZAM\<close>
  (report on the orders), \<^verbatim>\<open>Zakaz: \<close> (order), \<^verbatim>\<open>Klient: \<close> (customer), \<^verbatim>\<open>Summa: $\<close> (amount)
  and \<^verbatim>\<open> | Status: \<close> (status).
\<close>

definition title_text :: string where
  "title_text =
     [CHR 0xD0, CHR 0x9E, CHR 0xD0, CHR 0xA2, CHR 0xD0, CHR 0xA7, CHR 0xD0, CHR 0x95, CHR 0xD0,
      CHR 0xA2, CHR 0x20, CHR 0xD0, CHR 0x9F, CHR 0xD0, CHR 0x9E, CHR 0x20, CHR 0xD0, CHR 0x97,
      CHR 0xD0, CHR 0x90, CHR 0xD0, CHR 0x9A, CHR 0xD0, CHR 0x90, CHR 0xD0, CHR 0x97, CHR 0xD0,
      CHR 0x90, CHR 0xD0, CHR 0x9C]"

definition order_label :: string where
  "order_label =
     [CHR 0xD0, CHR 0x97, CHR 0xD0, CHR 0xB0, CHR 0xD0, CHR 0xBA, CHR 0xD0, CHR 0xB0, CHR 0xD0,
      CHR 0xB7, CHR 0x3A, CHR 0x20]"

definition customer_label :: string where
  "customer_label =
     [CHR 0xD0, CHR 0x9A, CHR 0xD0, CHR 0xBB, CHR 0xD0, CHR 0xB8, CHR 0xD0, CHR 0xB5, CHR 0xD0,
      CHR 0xBD, CHR 0xD1, CHR 0x82, CHR 0x3A, CHR 0x20]"

definition amount_label :: string where
  "amount_label =
     [CHR 0xD0, CHR 0xA1, CHR 0xD1, CHR 0x83, CHR 0xD0, CHR 0xBC, CHR 0xD0, CHR 0xBC, CHR 0xD0,
      CHR 0xB0, CHR 0x3A, CHR 0x20, CHR 0x24]"

definition status_label :: string where
  "status_label =
     [CHR 0x20, CHR 0x7C, CHR 0x20, CHR 0xD0, CHR 0xA1, CHR 0xD1, CHR 0x82, CHR 0xD0, CHR 0xB0,
      CHR 0xD1, CHR 0x82, CHR 0xD1, CHR 0x83, CHR 0xD1, CHR 0x81, CHR 0x3A, CHR 0x20]"

text \<open>
  What an f-string puts for a value: \<^verbatim>\<open>None\<close> for \<^verbatim>\<open>None\<close>, a string as it is, and for a
  float the text \<open>fmt\<close> gives; the conversion of floats to text is a parameter.
\<close>

definition format_float :: "(real \<Rightarrow> string) \<Rightarrow> real option \<Rightarrow> string" where
  "format_float fmt v = (case v of None \<Rightarrow> ''None'' | Some x \<Rightarrow> fmt x)"

definition format_str :: "string option \<Rightarrow> string" where
  "format_str v = (case v of None \<Rightarrow> ''None'' | Some s \<Rightarrow> s)"

text \<open>The body of the loop of \<^verbatim>\<open>export_orders_to_odt\<close>, for one order.\<close>

definition export_body :: "(real \<Rightarrow> string) \<Rightarrow> order \<Rightarrow> document \<Rightarrow> document" where
  "export_body fmt ord doc =
     (let order_header = addText (order_label @ order_number ord) P;
          doc1 = addElement order_header doc;
          customer_info = addText (customer_label @ customer_name ord) P;
          doc2 = addElement customer_info doc1;
          amount_info =
            addText (amount_label @ format_float fmt (total_amount ord) @ status_label @
                     format_str (status ord)) P;
          doc3 = addElement amount_info doc2;
          doc4 = addElement P doc3
      in doc4)"

fun export_loop :: "(real \<Rightarrow> string) \<Rightarrow> order list \<Rightarrow> document \<Rightarrow> document" where
  "export_loop fmt [] doc = doc"
| "export_loop fmt (ord # rest) doc = export_loop fmt rest (export_body fmt ord doc)"

text \<open>
  \<^verbatim>\<open>doc.save(filename)\<close> writes the file, over a file of that name if there is one, and
  raises an \<^verbatim>\<open>OSError\<close> when the file cannot be opened for writing; \<open>can_write\<close> tells
  for which names it can.
\<close>

definition save ::
    "(string \<Rightarrow> bool) \<Rightarrow> document \<Rightarrow> string \<Rightarrow> (string \<rightharpoonup> document) \<Rightarrow>
       (error + unit) \<times> (string \<rightharpoonup> document)" where
  "save can_write doc filename files =
     (if can_write filename then (Inr (), files(filename \<mapsto> doc)) else (Inl OSError, files))"

text \<open>
  \<^verbatim>\<open>export_orders_to_odt\<close>: the document is built and saved under \<open>filename\<close>, whose default
  is \<^verbatim>\<open>orders.odt\<close>. The message printed at the end is not part of the model.
\<close>

definition export_orders_to_odt ::
    "(string \<Rightarrow> bool) \<Rightarrow> (real \<Rightarrow> string) \<Rightarrow> order list \<Rightarrow> string \<Rightarrow>
       (string \<rightharpoonup> document) \<Rightarrow> (error + unit) \<times> (string \<rightharpoonup> document)" where
  "export_orders_to_odt can_write fmt orders_arg filename files =
     (let doc = OpenDocumentText;
          title = addText title_text P;
          doc1 = addElement title doc;
          doc2 = addElement P doc1;
          doc3 = export_loop fmt orders_arg doc2
      in save can_write doc3 filename files)"

section \<open>Notions used in the statements\<close>

text \<open>The object the inner loop constructs for one entry of \<^verbatim>\<open>items\<close>.\<close>

definition item_obj :: "heap \<Rightarrow> nat \<Rightarrow> item_data \<Rightarrow> order_item_obj" where
  "item_obj h ord d =
     OrderItem ord (item_product d) (item_quantity d) (price (product_objs h ! item_product d))
       (price (product_objs h ! item_product d) * of_int (item_quantity d))"

text \<open>
  What holds of the objects and the session between two rounds of the outer loop: all
  orders and order items constructed so far are pending, every item points to an
  order, carries the product of its quantity and unit price, and every order carries
  the sum over its items.
\<close>

definition objs_ok :: "heap \<Rightarrow> session \<Rightarrow> bool" where
  "objs_ok h s \<longleftrightarrow>
     order_refs (pending s) = [0..<length (order_objs h)] \<and>
     order_item_refs (pending s) = [0..<length (order_item_objs h)] \<and>
     (\<forall>obj \<in> set (order_item_objs h).
        order obj < length (order_objs h) \<and>
        total_price obj = unit_price obj * of_int (quantity obj)) \<and>
     (\<forall>r < length (order_objs h).
        total_amount (order_objs h ! r) =
          Some (sum_list (map total_price (filter (\<lambda>obj. order obj = r) (order_item_objs h)))))"

text \<open>
  The items of an order: the rows that \<^verbatim>\<open>display_orders\<close> selects with
  \<^verbatim>\<open>filter_by(order_id=order.id)\<close>.
\<close>

definition items_of :: "store \<Rightarrow> order \<Rightarrow> order_item list" where
  "items_of st ord = filter (\<lambda>i. order_id i = id' ord) (order_items st)"

definition totals_ok :: "store \<Rightarrow> bool" where
  "totals_ok st \<longleftrightarrow>
     (\<forall>ord \<in> set (orders st).
        total_amount ord = Some (sum_list (map total_price (items_of st ord))))"

definition line_totals_ok :: "store \<Rightarrow> bool" where
  "line_totals_ok st \<longleftrightarrow>
     (\<forall>i \<in> set (order_items st). total_price i = of_int (quantity i) * unit_price i)"

text \<open>The order an item row points to has a key below the next key of the orders table.\<close>

definition fk_ok :: "store \<Rightarrow> bool" where
  "fk_ok st \<longleftrightarrow>
     (\<forall>i \<in> set (order_items st). \<forall>k. order_id i = Some k \<longrightarrow> k < next_id (orders st))"

text \<open>A table that does not exist has no rows.\<close>

definition rows_ok :: "store \<Rightarrow> bool" where
  "rows_ok st \<longleftrightarrow>
     (''suppliers'' \<notin> set (tables st) \<longrightarrow> suppliers st = []) \<and>
     (''products'' \<notin> set (tables st) \<longrightarrow> products st = []) \<and>
     (''orders'' \<notin> set (tables st) \<longrightarrow> orders st = []) \<and>
     (''order_items'' \<notin> set (tables st) \<longrightarrow> order_items st = [])"

text \<open>The header block of the report and the block of one order.\<close>

definition report_header :: document where
  "report_header = [title_text, []]"

definition order_block :: "(real \<Rightarrow> string) \<Rightarrow> order \<Rightarrow> document" where
  "order_block fmt ord =
     [order_label @ order_number ord,
      customer_label @ customer_name ord,
      amount_label @ format_float fmt (total_amount ord) @ status_label @ format_str (status ord),
      []]"

text \<open>A text occurs in a paragraph.\<close>

fun starts_with :: "string \<Rightarrow> string \<Rightarrow> bool" where
  "starts_with s [] = True"
| "starts_with [] (c # t) = False"
| "starts_with (d # s) (c # t) = (d = c \<and> starts_with s t)"

fun occurs_in :: "string \<Rightarrow> string \<Rightarrow> bool" where
  "occurs_in t [] = (t = [])"
| "occurs_in t (c # s) = (starts_with (c # s) t \<or> occurs_in t s)"

text \<open>The orders of a list are in the order of their creation times.\<close>

definition ordered_by_creation :: "order list \<Rightarrow> bool" where
  "ordered_by_creation rs = sorted (map created_at rs)"

text \<open>
  The name of the product of an item row, as \<^verbatim>\<open>display_orders\<close> looks it up with
  \<^verbatim>\<open>filter_by(id=item.product_id).first()\<close>.
\<close>

definition product_name_of :: "store \<Rightarrow> order_item \<Rightarrow> string option" where
  "product_name_of st i =
     (case filter (\<lambda>p. id' p = product_id i) (products st) of
        [] \<Rightarrow> None
      | p # _ \<Rightarrow> Some (product_name p))"

text \<open>What holds of every store the program produces.\<close>

definition store_inv :: "store \<Rightarrow> bool" where
  "store_inv st \<longleftrightarrow>
     totals_ok st \<and> line_totals_ok st \<and> fk_ok st \<and> rows_ok st \<and>
     distinct (map order_number (orders st))"

text \<open>
  The stores the program can produce: it starts from a database without tables, and
  the operations that write are \<^verbatim>\<open>create_tables\<close> and \<^verbatim>\<open>fill_with_sample_data\<close>, on any
  connection object, with any engine factory, random bytes and clock readings.
\<close>

inductive reachable :: "store \<Rightarrow> bool" where
  start: "reachable empty_store"
| tables: "reachable st \<Longrightarrow> reachable (snd (snd (create_tables create_engine db st)))"
| fill:
    "reachable st \<Longrightarrow>
     reachable (snd (snd (fill_with_sample_data create_engine rnd clock db st)))"

text \<open>
  The objects \<^verbatim>\<open>fill_with_sample_data\<close> has constructed when it commits, and the pending
  objects of its session, in the order in which they were added.
\<close>

definition objects_at_commit :: "(nat \<Rightarrow> 128 word) \<Rightarrow> heap" where
  "objects_at_commit rnd =
     \<lparr>supplier_objs =
        [Supplier ''Waosa Supplier'' ''Waosa Manager'' ''manager@waosa.com'' ''123-456-7890''],
      product_objs =
        [Product ''Waosa Product A'' 100 50 0, Product ''Waosa Product B'' 200 30 0,
         Product ''Waosa Product C'' 150 20 0],
      order_objs =
        [(Order (generate_order_number (rnd 0)) ''Alice Johnson'' ''alice@waosa.com''
            ''completed'')\<lparr>total_amount := Some 400\<rparr>,
         (Order (generate_order_number (rnd 1)) ''Bob Smith'' ''bob@waosa.com''
            ''completed'')\<lparr>total_amount := Some 550\<rparr>],
      order_item_objs =
        [OrderItem 0 0 2 100 200, OrderItem 0 1 1 200 200,
         OrderItem 1 2 3 150 450, OrderItem 1 0 1 100 100]\<rparr>"

definition pending_at_commit :: "obj_ref list" where
  "pending_at_commit =
     [OrderItemRef 0, OrderItemRef 1, OrderRef 0, OrderItemRef 2, OrderItemRef 3, OrderRef 1,
      SupplierRef 0, ProductRef 0, ProductRef 1, ProductRef 2]"

section \<open>A sample run\<close>

text \<open>
  The program's first run on a new database: \<^verbatim>\<open>main\<close> creates the tables and fills
  them. The engine factory stands for an installation that has only SQLite: it
  builds an engine from a connection string that begins with \<^verbatim>\<open>sqlite:///\<close> and refuses
  every other string. The random bytes of the \<open>k\<close>-th order number are \<open>k\<close> in the
  highest 32 bits, and the \<open>k\<close>-th pair of clock readings of every table is
  \<open>(100 + k, 100 + k)\<close>.
\<close>

definition sqlite_only :: engine_factory where
  "sqlite_only url =
     (if take 10 url = ''sqlite:///'' then Inr (Engine url) else Inl ArgumentError)"

definition sample_db :: database_connection where
  "sample_db = DatabaseConnection ''sqlite:///waosa.db''"

definition sample_rnd :: "nat \<Rightarrow> 128 word" where
  "sample_rnd k = push_bit 96 (of_nat k)"

definition sample_clock :: "string \<Rightarrow> nat \<Rightarrow> timestamp \<times> timestamp" where
  "sample_clock t k = (100 + k, 100 + k)"

text \<open>The clock of a later run, after the system time has been set back.\<close>

definition set_back_clock :: "string \<Rightarrow> nat \<Rightarrow> timestamp \<times> timestamp" where
  "set_back_clock t k = (k, k)"

text \<open>A random source that returns the same bytes at every call.\<close>

definition constant_rnd :: "nat \<Rightarrow> 128 word" where
  "constant_rnd k = 0"

text \<open>Random bytes of a later run that differ from those of the first.\<close>

definition later_rnd :: "nat \<Rightarrow> 128 word" where
  "later_rnd k = push_bit 96 (of_nat (2 + k))"

text \<open>
  Python's text for a float whose value is a whole number below \<open>10\<^sup>1\<^sup>6\<close>, such as
  \<^verbatim>\<open>400.0\<close>; the amounts of the sample run are of this kind.
\<close>

fun str_nat :: "nat \<Rightarrow> string" where
  "str_nat n =
     (if n < 10 then [''0123456789'' ! n]
      else str_nat (n div 10) @ [''0123456789'' ! (n mod 10)])"

definition str_float :: "real \<Rightarrow> string" where
  "str_float x = (if x < 0 then ''-'' else []) @ str_nat (nat \<lfloor>\<bar>x\<bar>\<rfloor>) @ ''.0''"

text \<open>Every file can be written.\<close>

definition any_file :: "string \<Rightarrow> bool" where
  "any_file name = True"


definition connected_db :: database_connection where
  "connected_db = fst (snd (create_tables sqlite_only sample_db empty_store))"

definition fresh_store :: store where
  "fresh_store = snd (snd (create_tables sqlite_only sample_db empty_store))"

definition sample_store :: store where
  "sample_store =
     snd (snd (fill_with_sample_data sqlite_only sample_rnd sample_clock connected_db
                 fresh_store))"

text \<open>The store after a second run, with other random bytes and the clock set back.\<close>

definition second_store :: store where
  "second_store =
     snd (snd (fill_with_sample_data sqlite_only later_rnd set_back_clock connected_db
                 sample_store))"

section \<open>Schema initialisation\<close>

lemma create_all_tables_present:
  "set ts \<subseteq> set (tables st) \<Longrightarrow> create_all_tables ts st = Inr st"
  by (induction ts) simp_all

lemma create_table_tables:
  "create_table t st = Inr st' \<Longrightarrow> tables st' = tables st @ [t]"
  by (auto simp: create_table_def empty_table_def split: if_splits)

lemma create_all_tables_total:
  "\<exists>st'. create_all_tables ts st = Inr st'"
proof (induction ts arbitrary: st)
  case Nil
  show ?case by simp
next
  case (Cons t ts)
  show ?case
  proof (cases "t \<in> set (tables st)")
    case True
    with Cons show ?thesis by simp
  next
    case False
    then obtain st1 where "create_table t st = Inr st1"
      by (simp add: create_table_def)
    with False Cons show ?thesis by simp
  qed
qed

lemma create_all_tables_covers:
  "create_all_tables ts st = Inr st' \<Longrightarrow> set (tables st') = set (tables st) \<union> set ts"
proof (induction ts arbitrary: st)
  case Nil
  then show ?case by simp
next
  case (Cons t ts)
  show ?case
  proof (cases "t \<in> set (tables st)")
    case True
    with Cons show ?thesis by auto
  next
    case False
    then obtain st1 where st1: "create_table t st = Inr st1"
      by (simp add: create_table_def)
    with False Cons.prems have "create_all_tables ts st1 = Inr st'" by simp
    from Cons.IH [OF this] create_table_tables [OF st1] show ?thesis by auto
  qed
qed

lemma create_all_tables_distinct:
  "create_all_tables ts st = Inr st' \<Longrightarrow> distinct (tables st) \<Longrightarrow> distinct (tables st')"
proof (induction ts arbitrary: st)
  case Nil
  then show ?case by simp
next
  case (Cons t ts)
  show ?case
  proof (cases "t \<in> set (tables st)")
    case True
    with Cons show ?thesis by auto
  next
    case False
    then obtain st1 where st1: "create_table t st = Inr st1"
      by (simp add: create_table_def)
    with False Cons.prems have run: "create_all_tables ts st1 = Inr st'" by simp
    from create_table_tables [OF st1] False Cons.prems(2) have "distinct (tables st1)" by simp
    from Cons.IH [OF run this] show ?thesis .
  qed
qed

lemma kept_refl: "kept st st"
  by (simp add: kept_def)

lemma create_table_rows:
  assumes "create_table t st = Inr st1"
  shows "tables st1 = tables st @ [t]" and "t \<notin> set (tables st)"
    and "t \<noteq> ''suppliers'' \<Longrightarrow> suppliers st1 = suppliers st"
    and "t \<noteq> ''products'' \<Longrightarrow> products st1 = products st"
    and "t \<noteq> ''orders'' \<Longrightarrow> orders st1 = orders st"
    and "t \<noteq> ''order_items'' \<Longrightarrow> order_items st1 = order_items st"
  using assms by (simp_all add: create_table_def empty_table_def split: if_splits) auto

lemma kept_create_table:
  assumes "create_table t st = Inr st1" and "kept st1 st'"
  shows "kept st st'"
proof -
  note r = create_table_rows [OF assms(1)]
  from assms(2) have "take (length (tables st) + 1) (tables st') = tables st @ [t]"
    by (simp add: kept_def r(1))
  then have "take (length (tables st)) (take (length (tables st) + 1) (tables st')) = tables st"
    by simp
  then have 1: "take (length (tables st)) (tables st') = tables st"
    by (simp add: min_def)
  show ?thesis
    unfolding kept_def
    using 1 assms(2) r(2-) unfolding kept_def
    by (metis Un_iff r(1) set_append)
qed

lemma create_all_tables_kept:
  "create_all_tables ts st = Inr st' \<Longrightarrow> kept st st'"
proof (induction ts arbitrary: st)
  case Nil
  then show ?case by (simp add: kept_refl)
next
  case (Cons t ts)
  show ?case
  proof (cases "t \<in> set (tables st)")
    case True
    with Cons show ?thesis by auto
  next
    case False
    then obtain st1 where st1: "create_table t st = Inr st1"
      by (simp add: create_table_def)
    with False Cons.prems have run: "create_all_tables ts st1 = Inr st'" by simp
    from kept_create_table [OF st1 Cons.IH [OF run]] show ?thesis .
  qed
qed


lemma create_all_total: "\<exists>st'. create_all st = Inr st'"
  unfolding create_all_def by (rule create_all_tables_total)

lemma connect_Inr:
  "create_engine (connection_string self) = Inr e \<Longrightarrow>
   connect create_engine self =
     (Inr e, self\<lparr>engine := Some e, SessionLocal := Some (Sessionmaker e)\<rparr>)"
  by (simp add: connect_def)

lemma connect_Inl:
  "create_engine (connection_string self) = Inl err \<Longrightarrow>
   connect create_engine self = (Inl err, self)"
  by (simp add: connect_def)

text \<open>What one call of \<^verbatim>\<open>create_tables\<close> does.\<close>

lemma create_tables_cases:
  obtains (refused) err where "engine self = None"
      "create_engine (connection_string self) = Inl err"
      "create_tables create_engine self st = (Inl err, self, st)"
  | (connected) e st' where "engine self = None"
      "create_engine (connection_string self) = Inr e"
      "create_all_tables metadata_tables st = Inr st'"
      "create_tables create_engine self st =
         (Inr (), self\<lparr>engine := Some e, SessionLocal := Some (Sessionmaker e)\<rparr>, st')"
  | (present) st' where "engine self \<noteq> None"
      "create_all_tables metadata_tables st = Inr st'"
      "create_tables create_engine self st = (Inr (), self, st')"
proof -
  obtain st' where run: "create_all_tables metadata_tables st = Inr st'"
    using create_all_tables_total by blast
  show thesis
  proof (cases "engine self")
    case (Some x)
    with run have "create_tables create_engine self st = (Inr (), self, st')"
      by (simp add: create_tables_def call_create_all_def create_all_def)
    moreover from Some have "engine self \<noteq> None" by simp
    ultimately show thesis using run by (intro present)
  next
    case None
    note True = None
    show thesis
    proof (cases "create_engine (connection_string self)")
      case (Inl err)
      with True have "create_tables create_engine self st = (Inl err, self, st)"
        by (simp add: create_tables_def connect_Inl)
      with True Inl show thesis by (rule refused)
    next
      case (Inr e)
      with True run have "create_tables create_engine self st =
          (Inr (), self\<lparr>engine := Some e, SessionLocal := Some (Sessionmaker e)\<rparr>, st')"
        by (simp add: create_tables_def connect_Inr call_create_all_def create_all_def)
      with True Inr run show thesis by (rule connected)
    qed
  qed
qed

text \<open>
  C8. Schema initialisation is idempotent. Of two calls of \<^verbatim>\<open>create_tables\<close> in succession
  the second returns what the first returned and changes neither the store nor the
  connection object; no table appears twice; a table that existed before the first
  call keeps its place and its rows, and when all tables existed the store is
  unchanged. Neither call raises when the connection has an engine or
  \<^verbatim>\<open>create_engine\<close> accepts the connection string, and all tables exist afterwards; the
  only error is the one \<^verbatim>\<open>create_engine\<close> raises, and then the store is untouched.
\<close>

theorem create_tables_idempotent:
  assumes "create_tables create_engine self st = (r1, self1, st1)"
    and "create_tables create_engine self1 st1 = (r2, self2, st2)"
  shows "r2 = r1 \<and> self2 = self1 \<and> st2 = st1 \<and>
         (distinct (tables st) \<longrightarrow> distinct (tables st1)) \<and> kept st st1 \<and>
         (set metadata_tables \<subseteq> set (tables st) \<longrightarrow> st1 = st) \<and>
         (engine self \<noteq> None \<or> (\<exists>e. create_engine (connection_string self) = Inr e) \<longrightarrow>
            r1 = Inr () \<and> set metadata_tables \<subseteq> set (tables st1)) \<and>
         (\<forall>err. r1 = Inl err \<longrightarrow>
            engine self = None \<and> create_engine (connection_string self) = Inl err \<and> st1 = st)"
proof (cases rule: create_tables_cases [of self create_engine st])
  case (refused err)
  with assms show ?thesis by (auto simp: kept_refl)
next
  case (connected e st')
  from connected(4) assms(1) have 1: "r1 = Inr ()" "st1 = st'"
    "self1 = self\<lparr>engine := Some e, SessionLocal := Some (Sessionmaker e)\<rparr>"
    by simp_all
  have covers: "set metadata_tables \<subseteq> set (tables st1)"
    using create_all_tables_covers [OF connected(3)] 1(2) by simp
  have "create_tables create_engine self1 st1 = (Inr (), self1, st1)"
    using create_all_tables_present [OF covers]
    by (simp add: create_tables_def call_create_all_def create_all_def 1(3))
  with assms(2) have 2: "r2 = Inr ()" "self2 = self1" "st2 = st1" by simp_all
  have "distinct (tables st) \<longrightarrow> distinct (tables st1)"
    using create_all_tables_distinct [OF connected(3)] 1(2) by simp
  moreover have "kept st st1"
    using create_all_tables_kept [OF connected(3)] 1(2) by simp
  moreover have "set metadata_tables \<subseteq> set (tables st) \<longrightarrow> st1 = st"
    using create_all_tables_present [of metadata_tables st] connected(3) 1(2) by auto
  ultimately show ?thesis using 1(1) 2 covers by simp
next
  case (present st')
  from present(3) assms(1) have 1: "r1 = Inr ()" "st1 = st'" "self1 = self"
    by simp_all
  have covers: "set metadata_tables \<subseteq> set (tables st1)"
    using create_all_tables_covers [OF present(2)] 1(2) by simp
  have "create_tables create_engine self1 st1 = (Inr (), self1, st1)"
    using create_all_tables_present [OF covers] present(1)
    by (auto simp: create_tables_def call_create_all_def create_all_def 1(3))
  with assms(2) have 2: "r2 = Inr ()" "self2 = self1" "st2 = st1" by simp_all
  have "distinct (tables st) \<longrightarrow> distinct (tables st1)"
    using create_all_tables_distinct [OF present(2)] 1(2) by simp
  moreover have "kept st st1"
    using create_all_tables_kept [OF present(2)] 1(2) by simp
  moreover have "set metadata_tables \<subseteq> set (tables st) \<longrightarrow> st1 = st"
    using create_all_tables_present [of metadata_tables st] present(2) 1(2) by auto
  ultimately show ?thesis using 1(1) 2 covers by simp
qed

section \<open>Connecting on demand\<close>

text \<open>What one call of \<^verbatim>\<open>get_session\<close> does.\<close>

lemma get_session_cases:
  obtains (refused) err where "SessionLocal db = None"
      "create_engine (connection_string db) = Inl err"
      "get_session create_engine db = (Inl err, db)"
  | (connected) e where "SessionLocal db = None"
      "create_engine (connection_string db) = Inr e"
      "get_session create_engine db =
         (Inr \<lparr>bind = e, pending = []\<rparr>,
          db\<lparr>engine := Some e, SessionLocal := Some (Sessionmaker e)\<rparr>)"
  | (present) e where "SessionLocal db = Some (Sessionmaker e)"
      "get_session create_engine db = (Inr \<lparr>bind = e, pending = []\<rparr>, db)"
proof (cases "SessionLocal db")
  case (Some mk)
  obtain e where mk: "mk = Sessionmaker e" by (cases mk)
  with Some have "get_session create_engine db = (Inr \<lparr>bind = e, pending = []\<rparr>, db)"
    by (simp add: get_session_def call_SessionLocal_def)
  with Some mk show thesis by (simp add: present)
next
  case None
  show thesis
  proof (cases "create_engine (connection_string db)")
    case (Inl err)
    with None have "get_session create_engine db = (Inl err, db)"
      by (simp add: get_session_def connect_Inl)
    with None Inl show thesis by (rule refused)
  next
    case (Inr e)
    with None have "get_session create_engine db =
        (Inr \<lparr>bind = e, pending = []\<rparr>,
         db\<lparr>engine := Some e, SessionLocal := Some (Sessionmaker e)\<rparr>)"
      by (simp add: get_session_def connect_Inr call_SessionLocal_def)
    with None Inr show thesis by (rule connected)
  qed
qed

text \<open>
  C10. On a connection that has not been connected, \<^verbatim>\<open>get_session\<close> and \<^verbatim>\<open>create_tables\<close>
  connect first: each does what \<^verbatim>\<open>connect\<close> followed by the same call does, an exception
  of \<^verbatim>\<open>connect\<close> included. When \<^verbatim>\<open>create_engine\<close> accepts the connection string, each
  returns without error and leaves the engine and the session factory set, to that
  engine and a factory bound to it. When \<^verbatim>\<open>create_engine\<close> raises, the call raises the
  same exception and leaves the connection object and the store as they were.
\<close>

theorem connects_on_demand:
  assumes "engine self = None" and "SessionLocal self = None"
  shows "get_session create_engine self =
           (case connect create_engine self of
              (Inl err, self1) \<Rightarrow> (Inl err, self1)
            | (Inr e, self1) \<Rightarrow> get_session create_engine self1) \<and>
         create_tables create_engine self st =
           (case connect create_engine self of
              (Inl err, self1) \<Rightarrow> (Inl err, self1, st)
            | (Inr e, self1) \<Rightarrow> create_tables create_engine self1 st) \<and>
         (\<forall>e. create_engine (connection_string self) = Inr e \<longrightarrow>
            fst (get_session create_engine self) = Inr \<lparr>bind = e, pending = []\<rparr> \<and>
            engine (snd (get_session create_engine self)) = Some e \<and>
            SessionLocal (snd (get_session create_engine self)) = Some (Sessionmaker e) \<and>
            fst (create_tables create_engine self st) = Inr () \<and>
            engine (fst (snd (create_tables create_engine self st))) = Some e \<and>
            SessionLocal (fst (snd (create_tables create_engine self st))) =
              Some (Sessionmaker e)) \<and>
         (\<forall>err. create_engine (connection_string self) = Inl err \<longrightarrow>
            get_session create_engine self = (Inl err, self) \<and>
            create_tables create_engine self st = (Inl err, self, st))"
proof (cases "create_engine (connection_string self)")
  case (Inl err)
  with assms show ?thesis
    by (simp add: get_session_def create_tables_def connect_Inl)
next
  case (Inr e)
  obtain st' where run: "create_all st = Inr st'"
    using create_all_total by blast
  from assms Inr run show ?thesis
    by (simp add: get_session_def create_tables_def connect_Inr call_SessionLocal_def
        call_create_all_def)
qed

section \<open>The format of order numbers\<close>

lemma upper_hex_digits:
  "\<forall>n<16. upper_char (hex_digit n) \<in> set ''0123456789ABCDEF''"
  unfolding hex_digit_def upper_char_def
  by (simp add: eval_nat_numeral All_less_Suc)

lemma upper_hex_digit:
  "n < 16 \<Longrightarrow> upper_char (hex_digit n) \<in> set ''0123456789ABCDEF''"
  using upper_hex_digits by blast

lemma nibble_less: "unat ((w :: 128 word) AND 0xF) < 16"
proof -
  have "unat (w AND 0xF) \<le> unat (0xF :: 128 word)"
    by (rule word_and_le1 [THEN word_le_nat_alt [THEN iffD1]])
  then show ?thesis by simp
qed

text \<open>
  C4. Every string the order-number generator returns is \<^verbatim>\<open>ORD-\<close> followed by exactly
  eight characters out of \<^verbatim>\<open>0-9\<close> and \<^verbatim>\<open>A-F\<close>, whatever the random bytes are.
\<close>

theorem generate_order_number_format:
  "matches_order_pattern (generate_order_number r)"
  by (simp add: matches_order_pattern_def generate_order_number_def upper_def hex_def
      take_map list_all_iff upper_hex_digit nibble_less del: set_simps)

section \<open>The loops of the routine\<close>

lemma supplier_refs_append: "supplier_refs (xs @ ys) = supplier_refs xs @ supplier_refs ys"
  by (induction xs rule: supplier_refs.induct) simp_all
lemma product_refs_append: "product_refs (xs @ ys) = product_refs xs @ product_refs ys"
  by (induction xs rule: product_refs.induct) simp_all
lemma order_refs_append: "order_refs (xs @ ys) = order_refs xs @ order_refs ys"
  by (induction xs rule: order_refs.induct) simp_all
lemma order_item_refs_append:
  "order_item_refs (xs @ ys) = order_item_refs xs @ order_item_refs ys"
  by (induction xs rule: order_item_refs.induct) simp_all

lemmas refs_append =
  supplier_refs_append product_refs_append order_refs_append order_item_refs_append

lemma supplier_refs_mem: "SupplierRef i \<in> set xs \<longleftrightarrow> i \<in> set (supplier_refs xs)"
  by (induction xs rule: supplier_refs.induct) auto
lemma product_refs_mem: "ProductRef i \<in> set xs \<longleftrightarrow> i \<in> set (product_refs xs)"
  by (induction xs rule: product_refs.induct) auto
lemma order_refs_mem: "OrderRef i \<in> set xs \<longleftrightarrow> i \<in> set (order_refs xs)"
  by (induction xs rule: order_refs.induct) auto
lemma order_item_refs_mem: "OrderItemRef i \<in> set xs \<longleftrightarrow> i \<in> set (order_item_refs xs)"
  by (induction xs rule: order_item_refs.induct) auto

lemmas refs_mem = supplier_refs_mem product_refs_mem order_refs_mem order_item_refs_mem

lemma add_order_item:
  "order_item_refs (pending (session_add (OrderItemRef i) s)) =
     (if i \<in> set (order_item_refs (pending s)) then order_item_refs (pending s)
      else order_item_refs (pending s) @ [i])"
  "order_refs (pending (session_add (OrderItemRef i) s)) = order_refs (pending s)"
  "product_refs (pending (session_add (OrderItemRef i) s)) = product_refs (pending s)"
  "supplier_refs (pending (session_add (OrderItemRef i) s)) = supplier_refs (pending s)"
  by (simp_all add: session_add_def refs_append refs_mem)

lemma add_order:
  "order_refs (pending (session_add (OrderRef i) s)) =
     (if i \<in> set (order_refs (pending s)) then order_refs (pending s)
      else order_refs (pending s) @ [i])"
  "order_item_refs (pending (session_add (OrderRef i) s)) = order_item_refs (pending s)"
  "product_refs (pending (session_add (OrderRef i) s)) = product_refs (pending s)"
  "supplier_refs (pending (session_add (OrderRef i) s)) = supplier_refs (pending s)"
  by (simp_all add: session_add_def refs_append refs_mem)

lemma add_product:
  "product_refs (pending (session_add (ProductRef i) s)) =
     (if i \<in> set (product_refs (pending s)) then product_refs (pending s)
      else product_refs (pending s) @ [i])"
  "order_item_refs (pending (session_add (ProductRef i) s)) = order_item_refs (pending s)"
  "order_refs (pending (session_add (ProductRef i) s)) = order_refs (pending s)"
  "supplier_refs (pending (session_add (ProductRef i) s)) = supplier_refs (pending s)"
  by (simp_all add: session_add_def refs_append refs_mem)

lemma add_supplier:
  "supplier_refs (pending (session_add (SupplierRef i) s)) =
     (if i \<in> set (supplier_refs (pending s)) then supplier_refs (pending s)
      else supplier_refs (pending s) @ [i])"
  "order_item_refs (pending (session_add (SupplierRef i) s)) = order_item_refs (pending s)"
  "order_refs (pending (session_add (SupplierRef i) s)) = order_refs (pending s)"
  "product_refs (pending (session_add (SupplierRef i) s)) = product_refs (pending s)"
  by (simp_all add: session_add_def refs_append refs_mem)

text \<open>The inner loop in closed form.\<close>

lemma item_obj_heap:
  "product_objs h' = product_objs h \<Longrightarrow> item_obj h' ord d = item_obj h ord d"
  by (simp add: item_obj_def)

lemma item_obj_order_objs: "item_obj (h\<lparr>order_objs := x\<rparr>) = item_obj h"
  by (simp add: item_obj_def fun_eq_iff)

lemma item_body_eq:
  "item_body ord d (a, h, s) =
     (a + total_price (item_obj h ord d),
      h\<lparr>order_item_objs := order_item_objs h @ [item_obj h ord d]\<rparr>,
      session_add (OrderItemRef (length (order_item_objs h))) s)"
  by (simp add: item_body_def Let_def new_order_item_def item_obj_def OrderItem_def)

lemma item_loop_eq:
  "item_loop ord items (a, h, s) =
     (a + sum_list (map (\<lambda>d. total_price (item_obj h ord d)) items),
      h\<lparr>order_item_objs := order_item_objs h @ map (item_obj h ord) items\<rparr>,
      fold (\<lambda>i. session_add (OrderItemRef i))
        [length (order_item_objs h) ..< length (order_item_objs h) + length items] s)"
proof (induction items arbitrary: a h s)
  case Nil
  show ?case by simp
next
  case (Cons d items)
  define h1 where "h1 = h\<lparr>order_item_objs := order_item_objs h @ [item_obj h ord d]\<rparr>"
  have same: "\<And>d'. item_obj h1 ord d' = item_obj h ord d'"
    by (rule item_obj_heap) (simp add: h1_def)
  have upt: "[length (order_item_objs h) ..< length (order_item_objs h) + length (d # items)] =
      length (order_item_objs h) # [length (order_item_objs h1) ..< length (order_item_objs h1) + length items]"
    by (simp add: h1_def upt_rec)
  show ?case
    unfolding item_loop.simps item_body_eq h1_def [symmetric] Cons.IH upt same
    by (simp add: h1_def add.assoc)
qed

lemma fold_add_items:
  assumes "order_item_refs (pending s) = [0..<n]"
  shows "order_item_refs (pending (fold (\<lambda>i. session_add (OrderItemRef i)) [n..<n + k] s)) = [0..<n + k]
    \<and> order_refs (pending (fold (\<lambda>i. session_add (OrderItemRef i)) [n..<n + k] s)) = order_refs (pending s)
    \<and> product_refs (pending (fold (\<lambda>i. session_add (OrderItemRef i)) [n..<n + k] s)) = product_refs (pending s)
    \<and> supplier_refs (pending (fold (\<lambda>i. session_add (OrderItemRef i)) [n..<n + k] s)) = supplier_refs (pending s)"
proof (induction k)
  case 0
  show ?case using assms by simp
next
  case (Suc k)
  show ?case using Suc by (simp add: add_order_item)
qed

lemma order_body_eq:
  "order_body rnd od (k, h, s) =
     (Suc k,
      set_total_amount (length (order_objs h))
        (sum_list (map (\<lambda>d. total_price (item_obj h (length (order_objs h)) d)) (data_items od)))
        (h\<lparr>order_objs := order_objs h @
               [Order (generate_order_number (rnd k)) (data_customer_name od)
                  (data_customer_email od) ''completed''],
            order_item_objs := order_item_objs h @
               map (item_obj h (length (order_objs h))) (data_items od)\<rparr>),
      session_add (OrderRef (length (order_objs h)))
        (fold (\<lambda>i. session_add (OrderItemRef i))
           [length (order_item_objs h) ..< length (order_item_objs h) + length (data_items od)] s))"
  by (simp add: order_body_def Let_def new_order_def item_loop_eq item_obj_order_objs)

lemma order_body_ok:
  assumes "objs_ok h s" and "order_body rnd od (k, h, s) = (k', h', s')"
  shows "objs_ok h' s'"
    and "product_refs (pending s') = product_refs (pending s)"
    and "supplier_refs (pending s') = supplier_refs (pending s)"
    and "product_objs h' = product_objs h" and "supplier_objs h' = supplier_objs h"
    and "k' = Suc k"
    and "map order_number (order_objs h') =
           map order_number (order_objs h) @ [generate_order_number (rnd k)]"
    and "map total_amount (order_objs h') =
           map total_amount (order_objs h) @
           [Some (\<Sum>d\<leftarrow>data_items od.
               price (product_objs h ! item_product d) * of_int (item_quantity d))]"
    and "map customer_name (order_objs h') =
           map customer_name (order_objs h) @ [data_customer_name od]"
    and "length (order_item_objs h') = length (order_item_objs h) + length (data_items od)"
proof -
  define n where "n = length (order_objs h)"
  define m where "m = length (order_item_objs h)"
  define new where "new = map (item_obj h n) (data_items od)"
  define s2 where "s2 = fold (\<lambda>i. session_add (OrderItemRef i)) [m..<m + length (data_items od)] s"
  from assms(1) have refs: "order_refs (pending s) = [0..<n]" "order_item_refs (pending s) = [0..<m]"
    by (simp_all add: objs_ok_def n_def m_def)
  note f = fold_add_items [OF refs(2), of "length (data_items od)", folded s2_def]
  from assms(2) have k': "k' = Suc k" and s': "s' = session_add (OrderRef n) s2"
    and h': "h' = set_total_amount n (sum_list (map total_price new))
        (h\<lparr>order_objs := order_objs h @
               [Order (generate_order_number (rnd k)) (data_customer_name od)
                  (data_customer_email od) ''completed''],
            order_item_objs := order_item_objs h @ new\<rparr>)"
    by (simp_all add: order_body_eq n_def m_def new_def s2_def comp_def)
  show "k' = Suc k" by fact
  show "product_refs (pending s') = product_refs (pending s)"
    "supplier_refs (pending s') = supplier_refs (pending s)"
    using f by (simp_all add: s' add_order)
  show "product_objs h' = product_objs h" "supplier_objs h' = supplier_objs h"
    by (simp_all add: h' set_total_amount_def)
  have len: "length (order_objs h') = Suc n" "order_item_objs h' = order_item_objs h @ new"
    by (simp_all add: h' set_total_amount_def n_def)
  have objs: "order_objs h' = order_objs h @
      [(Order (generate_order_number (rnd k)) (data_customer_name od)
                  (data_customer_email od) ''completed'')\<lparr>total_amount := Some (sum_list (map total_price new))\<rparr>]"
    by (simp add: h' set_total_amount_def n_def nth_append)
  show "map order_number (order_objs h') =
           map order_number (order_objs h) @ [generate_order_number (rnd k)]"
    by (simp add: objs Order_def)
  show "map total_amount (order_objs h') =
           map total_amount (order_objs h) @
           [Some (\<Sum>d\<leftarrow>data_items od.
               price (product_objs h ! item_product d) * of_int (item_quantity d))]"
    by (simp add: objs new_def comp_def item_obj_def OrderItem_def)
  show "map customer_name (order_objs h') =
           map customer_name (order_objs h) @ [data_customer_name od]"
    by (simp add: objs Order_def)
  show "length (order_item_objs h') = length (order_item_objs h) + length (data_items od)"
    by (simp add: len new_def)
  have new_items: "\<forall>obj \<in> set new. order obj = n \<and> total_price obj = unit_price obj * of_int (quantity obj)"
    by (auto simp: new_def item_obj_def OrderItem_def)
  from assms(1) have old_items: "\<forall>obj \<in> set (order_item_objs h). order obj < n \<and>
        total_price obj = unit_price obj * of_int (quantity obj)"
    and old_totals: "\<forall>r < n. total_amount (order_objs h ! r) =
          Some (sum_list (map total_price (filter (\<lambda>obj. order obj = r) (order_item_objs h))))"
    by (simp_all add: objs_ok_def n_def)
  have f_old: "filter (\<lambda>obj. order obj = n) (order_item_objs h) = []"
    using old_items by (auto simp: filter_empty_conv)
  have f_new: "filter (\<lambda>obj. order obj = n) new = new"
    using new_items by (auto simp: filter_id_conv)
  have f_new': "\<And>r. r < n \<Longrightarrow> filter (\<lambda>obj. order obj = r) new = []"
    using new_items by (auto simp: filter_empty_conv)
  show "objs_ok h' s'"
    unfolding objs_ok_def len
  proof (intro conjI)
    show "order_refs (pending s') = [0..<Suc n]"
      using f refs by (simp add: s' add_order)
    show "order_item_refs (pending s') = [0..<length (order_item_objs h @ new)]"
      using f by (simp add: s' add_order m_def new_def)
    show "\<forall>obj\<in>set (order_item_objs h @ new). order obj < Suc n \<and>
        total_price obj = unit_price obj * real_of_int (quantity obj)"
      using old_items new_items by auto
    show "\<forall>r<Suc n. total_amount (order_objs h' ! r) =
        Some (sum_list (map total_price (filter (\<lambda>obj. order obj = r) (order_item_objs h @ new))))"
    proof (intro allI impI)
      fix r assume "r < Suc n"
      then consider "r < n" | "r = n" by linarith
      then show "total_amount (order_objs h' ! r) =
        Some (sum_list (map total_price (filter (\<lambda>obj. order obj = r) (order_item_objs h @ new))))"
      proof cases
        case 1
        then show ?thesis using old_totals f_new' by (simp add: objs nth_append n_def)
      next
        case 2
        then show ?thesis using f_old f_new by (simp add: objs nth_append n_def)
      qed
    qed
  qed
qed

lemma order_loop_ok:
  assumes "objs_ok h s" and "order_loop rnd ods (k, h, s) = (k', h', s')"
  shows "objs_ok h' s' \<and>
         product_refs (pending s') = product_refs (pending s) \<and>
         supplier_refs (pending s') = supplier_refs (pending s) \<and>
         product_objs h' = product_objs h \<and> supplier_objs h' = supplier_objs h \<and>
         k' = k + length ods \<and>
         map order_number (order_objs h') =
           map order_number (order_objs h) @
           map (\<lambda>j. generate_order_number (rnd (k + j))) [0..<length ods] \<and>
         map total_amount (order_objs h') =
           map total_amount (order_objs h) @
           map (\<lambda>od. Some (\<Sum>d\<leftarrow>data_items od.
                  price (product_objs h ! item_product d) * of_int (item_quantity d))) ods \<and>
         map customer_name (order_objs h') =
           map customer_name (order_objs h) @ map data_customer_name ods \<and>
         length (order_item_objs h') =
           length (order_item_objs h) + (\<Sum>od\<leftarrow>ods. length (data_items od))"
  using assms
proof (induction ods arbitrary: k h s)
  case Nil
  then show ?case by simp
next
  case (Cons od ods)
  obtain k1 h1 s1 where body: "order_body rnd od (k, h, s) = (k1, h1, s1)"
    by (cases "order_body rnd od (k, h, s)") auto
  note b = order_body_ok [OF Cons.prems(1) body]
  from Cons.prems(2) body have rest: "order_loop rnd ods (k1, h1, s1) = (k', h', s')"
    by simp
  note ih = Cons.IH [OF b(1) rest]
  have shift: "map (\<lambda>j. generate_order_number (rnd (k + j))) [0..<length (od # ods)] =
      generate_order_number (rnd k) # map (\<lambda>j. generate_order_number (rnd (Suc k + j))) [0..<length ods]"
    by (simp add: upt_conv_Cons map_Suc_upt [symmetric] del: upt_Suc)
  from ih b(2-) show ?case
    unfolding shift by simp
qed

section \<open>The flush\<close>

lemma enumerate_zip_upt:
  "enumerate c (zip [0..<m] [b..<b + m]) = map (\<lambda>r. (c + r, r, b + r)) [0..<m]"
  by (rule nth_equalityI) (simp_all add: nth_enumerate_eq)

lemma map_of_zip_upt:
  "map_of (zip [0..<n] [b..<b + n]) r = (if r < n then Some (b + r) else None)"
proof (induction n)
  case 0
  show ?case by simp
next
  case (Suc n)
  have "zip [0..<Suc n] [b..<b + Suc n] = zip [0..<n] [b..<b + n] @ [(n, b + n)]"
    by simp
  then show ?case using Suc
    by (auto simp: map_add_def map_of_append split: option.splits simp del: upt_Suc)
qed

lemma fold_max_ge: "(a::nat) \<le> fold max xs a"
proof (induction xs arbitrary: a)
  case Nil
  show ?case by simp
next
  case (Cons x xs)
  have "a \<le> max x a" by simp
  also have "\<dots> \<le> fold max xs (max x a)" by (rule Cons.IH)
  finally show ?case by simp
qed

lemma fold_max_mem: "(x::nat) \<in> set xs \<Longrightarrow> x \<le> fold max xs a"
proof (induction xs arbitrary: a)
  case Nil
  then show ?case by simp
next
  case (Cons y ys)
  show ?case
  proof (cases "x = y")
    case True
    have "x \<le> max x a" by simp
    also have "\<dots> \<le> fold max ys (max x a)" by (rule fold_max_ge)
    finally show ?thesis using True by simp
  next
    case False
    with Cons show ?thesis by simp
  qed
qed

lemma fold_max_upt: "0 < n \<Longrightarrow> fold max [b..<b + n] a = max a (b + n - 1)"
proof (induction n)
  case 0
  then show ?case by simp
next
  case (Suc n)
  show ?case
  proof (cases "n = 0")
    case True
    then show ?thesis by (simp add: max.commute)
  next
    case False
    then have "fold max [b..<b + n] a = max a (b + n - 1)" using Suc.IH by simp
    then have "fold max [b..<b + Suc n] a = max (b + n) (max a (b + n - 1))" by simp
    also have "\<dots> = max a (b + Suc n - 1)" using False unfolding max_def by auto
    finally show ?thesis .
  qed
qed

lemma next_id_bound:
  assumes "r \<in> set rows" and "id' r = Some i"
  shows "i < next_id rows"
proof -
  from assms have "i \<in> set (map (\<lambda>r. case id' r of None \<Rightarrow> 0 | Some i \<Rightarrow> i) rows)"
    by (force simp: image_iff)
  from fold_max_mem [OF this, of 0] show ?thesis
    by (simp add: next_id_def)
qed

lemma next_id_append:
  assumes "map id' new = map (\<lambda>r. Some (next_id rows + r)) [0..<n]"
  shows "next_id (rows @ new) = next_id rows + n"
proof (cases "n = 0")
  case True
  with assms show ?thesis by simp
next
  case False
  have "map (\<lambda>r. case id' r of None \<Rightarrow> 0 | Some i \<Rightarrow> i) new =
      map (\<lambda>x. case x of None \<Rightarrow> 0 | Some i \<Rightarrow> i) (map id' new)"
    by (simp add: comp_def)
  also have "\<dots> = map (\<lambda>r. r + next_id rows) [0..<n]"
    unfolding assms by (simp add: comp_def add.commute)
  also have "\<dots> = [next_id rows..<next_id rows + n]"
    by (simp add: map_add_upt add.commute)
  finally have new: "map (\<lambda>r. case id' r of None \<Rightarrow> 0 | Some i \<Rightarrow> i) new =
      [next_id rows..<next_id rows + n]" .
  have "next_id (rows @ new) =
      Suc (fold max [next_id rows..<next_id rows + n]
             (fold max (map (\<lambda>r. case id' r of None \<Rightarrow> 0 | Some i \<Rightarrow> i) rows) 0))"
    by (simp add: next_id_def new)
  also have "\<dots> = next_id rows + n"
    using False by (simp add: fold_max_upt) (simp add: next_id_def max_def)
  finally show ?thesis .
qed

text \<open>The rows a successful flush adds.\<close>

lemma flush_Inr:
  assumes "flush clock h new st = Inr st'"
    and "order_refs new = [0..<n]" and "order_item_refs new = [0..<m]"
  shows "tables st' = tables st"
    and "orders st' = orders st @
           map (\<lambda>r. order_row (clock ''orders'') h (r, r, next_id (orders st) + r)) [0..<n]"
    and "order_items st' = order_items st @
           map (\<lambda>r. order_item_row (clock ''order_items'') h
                  (zip [0..<n] [next_id (orders st)..<next_id (orders st) + n])
                  (new_ids (products st) (product_refs new))
                  (r, r, next_id (order_items st) + r)) [0..<m]"
    and "distinct (map order_number (orders st'))"
    and "n \<noteq> 0 \<Longrightarrow> ''orders'' \<in> set (tables st)"
    and "m \<noteq> 0 \<Longrightarrow> ''order_items'' \<in> set (tables st)"
    and "''suppliers'' \<notin> set (tables st) \<Longrightarrow> suppliers st' = suppliers st"
    and "''products'' \<notin> set (tables st) \<Longrightarrow> products st' = products st"
proof -
  let ?orows = "map (\<lambda>r. order_row (clock ''orders'') h (r, r, next_id (orders st) + r)) [0..<n]"
  let ?irows = "map (\<lambda>r. order_item_row (clock ''order_items'') h
                  (zip [0..<n] [next_id (orders st)..<next_id (orders st) + n])
                  (new_ids (products st) (product_refs new))
                  (r, r, next_id (order_items st) + r)) [0..<m]"
  have o: "map (order_row (clock ''orders'') h)
        (enumerate 0 (new_ids (orders st) (order_refs new))) = ?orows"
    by (simp add: new_ids_def assms(2) enumerate_zip_upt)
  have i: "map (order_item_row (clock ''order_items'') h (new_ids (orders st) (order_refs new))
              (new_ids (products st) (product_refs new)))
        (enumerate 0 (new_ids (order_items st) (order_item_refs new))) = ?irows"
    by (simp add: new_ids_def assms(2,3) enumerate_zip_upt)
  from assms(1) have ok:
    "\<not> (supplier_refs new \<noteq> [] \<and> ''suppliers'' \<notin> set (tables st))"
    "\<not> (product_refs new \<noteq> [] \<and> ''products'' \<notin> set (tables st))"
    "\<not> (order_refs new \<noteq> [] \<and> ''orders'' \<notin> set (tables st))"
    "distinct (map order_number (orders st @ ?orows))"
    "\<not> (order_item_refs new \<noteq> [] \<and> ''order_items'' \<notin> set (tables st))"
    and st': "st' = st\<lparr>suppliers := suppliers st @
          map (supplier_row (clock ''suppliers'') h)
            (enumerate 0 (new_ids (suppliers st) (supplier_refs new))),
        products := products st @
          map (product_row (clock ''products'') h (new_ids (suppliers st) (supplier_refs new)))
            (enumerate 0 (new_ids (products st) (product_refs new))),
        orders := orders st @ ?orows, order_items := order_items st @ ?irows\<rparr>"
    unfolding flush_def Let_def o i by (simp_all split: if_splits)
  show "tables st' = tables st" "orders st' = orders st @ ?orows"
    "order_items st' = order_items st @ ?irows"
    by (simp_all add: st')
  show "distinct (map order_number (orders st'))"
    using ok(4) by (simp add: st')
  show "n \<noteq> 0 \<Longrightarrow> ''orders'' \<in> set (tables st)"
    using ok(3) by (auto simp: assms(2))
  show "m \<noteq> 0 \<Longrightarrow> ''order_items'' \<in> set (tables st)"
    using ok(5) by (auto simp: assms(3))
  show "''suppliers'' \<notin> set (tables st) \<Longrightarrow> suppliers st' = suppliers st"
    using ok(1) by (auto simp: st' new_ids_def)
  show "''products'' \<notin> set (tables st) \<Longrightarrow> products st' = products st"
    using ok(2) by (auto simp: st' new_ids_def)
qed

lemma order_row_fields:
  "id' (order_row clock h (k, r, i)) = Some i"
  "order_number (order_row clock h (k, r, i)) = order_number (order_objs h ! r)"
  "total_amount (order_row clock h (k, r, i)) =
     (case total_amount (order_objs h ! r) of None \<Rightarrow> Some 0 | Some t \<Rightarrow> Some t)"
  by (simp_all add: order_row_def Let_def)

lemma order_item_row_fields:
  "id' (order_item_row clock h oids pids (k, r, i)) = Some i"
  "order_id (order_item_row clock h oids pids (k, r, i)) = map_of oids (order (order_item_objs h ! r))"
  "quantity (order_item_row clock h oids pids (k, r, i)) = quantity (order_item_objs h ! r)"
  "unit_price (order_item_row clock h oids pids (k, r, i)) = unit_price (order_item_objs h ! r)"
  "total_price (order_item_row clock h oids pids (k, r, i)) = total_price (order_item_objs h ! r)"
  by (simp_all add: order_item_row_def Let_def order_item.defs)

lemma flush_preserves:
  assumes fl: "flush clock h (pending s) st = Inr st'"
    and objs: "objs_ok h s"
    and inv: "totals_ok st" "line_totals_ok st" "fk_ok st" "rows_ok st"
  shows "totals_ok st' \<and> line_totals_ok st' \<and> fk_ok st' \<and> rows_ok st'"
proof -
  define n where "n = length (order_objs h)"
  define m where "m = length (order_item_objs h)"
  define bo where "bo = next_id (orders st)"
  define orow where "orow = (\<lambda>r. order_row (clock ''orders'') h (r, r, bo + r))"
  define irow where "irow = (\<lambda>r. order_item_row (clock ''order_items'') h
      (zip [0..<n] [bo..<bo + n]) (new_ids (products st) (product_refs (pending s)))
      (r, r, next_id (order_items st) + r))"
  from objs have refs: "order_refs (pending s) = [0..<n]" "order_item_refs (pending s) = [0..<m]"
    and items: "\<And>obj. obj \<in> set (order_item_objs h) \<Longrightarrow> order obj < n"
      "\<And>obj. obj \<in> set (order_item_objs h) \<Longrightarrow>
          total_price obj = unit_price obj * of_int (quantity obj)"
    and totals: "\<And>r. r < n \<Longrightarrow> total_amount (order_objs h ! r) =
          Some (sum_list (map total_price (filter (\<lambda>obj. order obj = r) (order_item_objs h))))"
    by (simp_all add: objs_ok_def n_def m_def)
  note f = flush_Inr [OF fl refs, folded bo_def, folded orow_def irow_def]
  have o': "orders st' = orders st @ map orow [0..<n]"
    and i': "order_items st' = order_items st @ map irow [0..<m]"
    using f(2,3) by simp_all
  have irow_order: "order_id (irow j) = Some (bo + order (order_item_objs h ! j))" if "j < m" for j
    using that items(1) [of "order_item_objs h ! j"]
    by (simp add: irow_def order_item_row_fields map_of_zip_upt m_def)
  have irow_total: "total_price (irow j) = total_price (order_item_objs h ! j)" for j
    by (simp add: irow_def order_item_row_fields)
  have old_id: "i < bo" if "ord \<in> set (orders st)" "id' ord = Some i" for ord i
    using next_id_bound [OF that] by (simp add: bo_def)
  have old_fk: "k < bo" if "i \<in> set (order_items st)" "order_id i = Some k" for i k
    using inv(3) that by (auto simp: fk_ok_def bo_def)
  have ids: "map id' (map orow [0..<n]) = map (\<lambda>r. Some (next_id (orders st) + r)) [0..<n]"
    by (simp add: orow_def order_row_fields bo_def)
  have next': "next_id (orders st') = bo + n"
    unfolding o' bo_def by (rule next_id_append [OF ids])
  have "totals_ok st'"
    unfolding totals_ok_def items_of_def o' i'
  proof
    fix ord assume "ord \<in> set (orders st @ map orow [0..<n])"
    then consider (old) "ord \<in> set (orders st)" | (new) r where "r < n" "ord = orow r"
      by auto
    then show "total_amount ord = Some (sum_list (map total_price
        (filter (\<lambda>i. order_id i = id' ord) (order_items st @ map irow [0..<m]))))"
    proof cases
      case old
      have "filter (\<lambda>i. order_id i = id' ord) (map irow [0..<m]) = []"
      proof -
        have "order_id (irow j) \<noteq> id' ord" if "j < m" for j
        proof
          assume "order_id (irow j) = id' ord"
          then have "id' ord = Some (bo + order (order_item_objs h ! j))"
            using irow_order [OF that] by simp
          from old_id [OF old this] show False by simp
        qed
        then show ?thesis by (auto simp: filter_empty_conv)
      qed
      with inv(1) old show ?thesis
        by (simp add: totals_ok_def items_of_def)
    next
      case new
      have id: "id' ord = Some (bo + r)"
        by (simp add: new orow_def order_row_fields)
      have 1: "filter (\<lambda>i. order_id i = id' ord) (order_items st) = []"
        using old_fk by (auto simp: filter_empty_conv id)
      have "filter (\<lambda>i. order_id i = id' ord) (map irow [0..<m]) =
          map irow (filter (\<lambda>j. order (order_item_objs h ! j) = r) [0..<m])"
        unfolding filter_map id comp_def
        by (rule arg_cong [where f = "map irow"], rule filter_cong) (simp_all add: irow_order)
      then have "sum_list (map total_price (filter (\<lambda>i. order_id i = id' ord) (map irow [0..<m]))) =
          sum_list (map total_price (map ((!) (order_item_objs h))
            (filter (\<lambda>j. order (order_item_objs h ! j) = r) [0..<m])))"
        by (simp add: comp_def irow_total)
      also have "map ((!) (order_item_objs h)) (filter (\<lambda>j. order (order_item_objs h ! j) = r) [0..<m]) =
          filter (\<lambda>obj. order obj = r) (map ((!) (order_item_objs h)) [0..<m])"
        by (simp add: filter_map comp_def)
      also have "map ((!) (order_item_objs h)) [0..<m] = order_item_objs h"
        unfolding m_def by (rule map_nth)
      finally have 2: "sum_list (map total_price (filter (\<lambda>i. order_id i = id' ord) (map irow [0..<m]))) =
          sum_list (map total_price (filter (\<lambda>obj. order obj = r) (order_item_objs h)))" .
      have "total_amount ord =
          Some (sum_list (map total_price (filter (\<lambda>obj. order obj = r) (order_item_objs h))))"
        using totals [OF new(1)] by (simp add: new(2) orow_def order_row_fields)
      then show ?thesis using 1 2 by simp
    qed
  qed
  moreover have "line_totals_ok st'"
    unfolding line_totals_ok_def i'
  proof
    fix i assume "i \<in> set (order_items st @ map irow [0..<m])"
    then consider (old) "i \<in> set (order_items st)" | (new) j where "j < m" "i = irow j"
      by auto
    then show "total_price i = of_int (quantity i) * unit_price i"
    proof cases
      case old
      with inv(2) show ?thesis by (simp add: line_totals_ok_def)
    next
      case new
      from new(1) have "order_item_objs h ! j \<in> set (order_item_objs h)"
        by (simp add: m_def)
      from items(2) [OF this] show ?thesis
        by (simp add: new(2) irow_def order_item_row_fields mult.commute)
    qed
  qed
  moreover have "fk_ok st'"
    unfolding fk_ok_def next' i'
  proof (intro ballI allI impI)
    fix i k assume "i \<in> set (order_items st @ map irow [0..<m])" and k: "order_id i = Some k"
    then consider (old) "i \<in> set (order_items st)" | (new) j where "j < m" "i = irow j"
      by auto
    then show "k < bo + n"
    proof cases
      case old
      from old_fk [OF old k] show ?thesis by simp
    next
      case new
      from new(1) have "order_item_objs h ! j \<in> set (order_item_objs h)"
        by (simp add: m_def)
      from items(1) [OF this] k show ?thesis
        by (simp add: new(2) irow_order [OF new(1)])
    qed
  qed
  moreover have "rows_ok st'"
    using inv(4) f(1,5,6,7,8) unfolding rows_ok_def o' i'
    by (cases "n = 0"; cases "m = 0") auto
  ultimately show ?thesis by simp
qed

section \<open>The routine as a whole\<close>

lemma objs_ok_add:
  "objs_ok h s \<Longrightarrow> objs_ok h (session_add (SupplierRef i) s)"
  "objs_ok h s \<Longrightarrow> objs_ok h (session_add (ProductRef i) s)"
  by (simp_all add: objs_ok_def add_supplier add_product)

lemma objs_ok_pending: "pending s = pending s' \<Longrightarrow> objs_ok h s = objs_ok h s'"
  by (simp add: objs_ok_def)

text \<open>The routine comes down to one flush, of the objects and the session given above.\<close>

lemma fill_session:
  assumes "get_session create_engine db = (Inr s0, db1)" and "pending s0 = []"
  shows "fill_with_sample_data create_engine rnd clock db st =
     (case flush clock (objects_at_commit rnd) pending_at_commit st of
        Inl e \<Rightarrow> (Inl e, db1, st)
      | Inr st' \<Rightarrow> (Inr (), db1, st'))"
proof -
  note s0 = assms(2) assms(1)
  define h4 where "h4 = \<lparr>supplier_objs =
        [Supplier ''Waosa Supplier'' ''Waosa Manager'' ''manager@waosa.com'' ''123-456-7890''],
      product_objs = [Product ''Waosa Product A'' 100 50 0, Product ''Waosa Product B'' 200 30 0,
        Product ''Waosa Product C'' 150 20 0],
      order_objs = [], order_item_objs = []\<rparr>"
  define data where "data =
                 [\<lparr>data_customer_name = ''Alice Johnson'',
                   data_customer_email = ''alice@waosa.com'',
                   data_items = [\<lparr>item_product = 0, item_quantity = 2\<rparr>,
                                 \<lparr>item_product = 1, item_quantity = 1\<rparr>]\<rparr>,
                  \<lparr>data_customer_name = ''Bob Smith'',
                   data_customer_email = ''bob@waosa.com'',
                   data_items = [\<lparr>item_product = 2, item_quantity = 3\<rparr>,
                                 \<lparr>item_product = 0, item_quantity = 1\<rparr>]\<rparr>]"
  define s1 where "s1 = (\<lambda>s :: session. s\<lparr>pending := [OrderItemRef 0, OrderItemRef 1, OrderRef 0,
      OrderItemRef 2, OrderItemRef 3, OrderRef 1]\<rparr>)"
  have loop: "order_loop rnd data (0, h4, s) = (2, objects_at_commit rnd, s1 s)"
    if "pending s = []" for s
    using that
    by (simp add: data_def h4_def s1_def objects_at_commit_def order_body_eq item_obj_def
        set_total_amount_def session_add_def Product_def OrderItem_def)
  define s3 where "s3 = session_add (ProductRef 2) (session_add (ProductRef 1)
      (session_add (ProductRef 0) (session_add (SupplierRef 0) (s1 s0))))"
  have s3: "pending s3 = pending_at_commit"
    by (simp add: s3_def s1_def session_add_def pending_at_commit_def)
  define hs1 where "hs1 = \<lparr>supplier_objs =
        [Supplier ''Waosa Supplier'' ''Waosa Manager'' ''manager@waosa.com'' ''123-456-7890''],
      product_objs = [], order_objs = [], order_item_objs = []\<rparr>"
  define hs2 where "hs2 = hs1\<lparr>product_objs := [Product ''Waosa Product A'' 100 50 0]\<rparr>"
  define hs3 where "hs3 = hs1\<lparr>product_objs :=
      [Product ''Waosa Product A'' 100 50 0, Product ''Waosa Product B'' 200 30 0]\<rparr>"
  have a:
    "new_supplier
       (Supplier ''Waosa Supplier'' ''Waosa Manager'' ''manager@waosa.com'' ''123-456-7890'')
       empty_heap = (0, hs1)"
    "new_product (Product ''Waosa Product A'' 100 50 0) hs1 = (0, hs2)"
    "new_product (Product ''Waosa Product B'' 200 30 0) hs2 = (1, hs3)"
    "new_product (Product ''Waosa Product C'' 150 20 0) hs3 = (2, h4)"
    by (simp_all add: new_supplier_def new_product_def empty_heap_def hs1_def hs2_def hs3_def
        h4_def)
  have d: "[0::nat, 1, 2] ! 0 = 0" "[0::nat, 1, 2] ! 1 = 1" "[0::nat, 1, 2] ! 2 = 2"
    by simp_all
  have "fill_with_sample_data create_engine rnd clock db st =
        (case commit clock (objects_at_commit rnd) s3 st of
           (Inl e, st1) \<Rightarrow> (Inl e, db1, st1)
         | (Inr s4, st1) \<Rightarrow> (Inr (), db1, st1))"
    unfolding fill_with_sample_data_def s0
    by (simp only: prod.case sum.case Let_def a d data_def [symmetric] loop [OF s0(1)] fold_simps
        s3_def id_apply comp_apply)
  then show ?thesis
    by (simp add: commit_def s3 split: sum.splits)
qed

lemma objs_ok_at_commit:
  "objs_ok (objects_at_commit rnd) \<lparr>bind = e, pending = pending_at_commit\<rparr>"
proof -
  define h4 where "h4 = \<lparr>supplier_objs =
        [Supplier ''Waosa Supplier'' ''Waosa Manager'' ''manager@waosa.com'' ''123-456-7890''],
      product_objs = [Product ''Waosa Product A'' 100 50 0, Product ''Waosa Product B'' 200 30 0,
        Product ''Waosa Product C'' 150 20 0],
      order_objs = [], order_item_objs = []\<rparr>"
  define data where "data =
                 [\<lparr>data_customer_name = ''Alice Johnson'',
                   data_customer_email = ''alice@waosa.com'',
                   data_items = [\<lparr>item_product = 0, item_quantity = 2\<rparr>,
                                 \<lparr>item_product = 1, item_quantity = 1\<rparr>]\<rparr>,
                  \<lparr>data_customer_name = ''Bob Smith'',
                   data_customer_email = ''bob@waosa.com'',
                   data_items = [\<lparr>item_product = 2, item_quantity = 3\<rparr>,
                                 \<lparr>item_product = 0, item_quantity = 1\<rparr>]\<rparr>]"
  define s1 where "s1 = (\<lambda>s :: session. s\<lparr>pending := [OrderItemRef 0, OrderItemRef 1, OrderRef 0,
      OrderItemRef 2, OrderItemRef 3, OrderRef 1]\<rparr>)"
  have loop: "order_loop rnd data (0, h4, s) = (2, objects_at_commit rnd, s1 s)"
    if "pending s = []" for s
    using that
    by (simp add: data_def h4_def s1_def objects_at_commit_def order_body_eq item_obj_def
        set_total_amount_def session_add_def Product_def OrderItem_def)
  have start: "objs_ok h4 \<lparr>bind = e, pending = []\<rparr>"
    by (simp add: objs_ok_def h4_def)
  have "objs_ok (objects_at_commit rnd) (s1 \<lparr>bind = e, pending = []\<rparr>)"
    using order_loop_ok [OF start loop] by simp
  then have "objs_ok (objects_at_commit rnd)
      (session_add (ProductRef 2) (session_add (ProductRef 1)
        (session_add (ProductRef 0) (session_add (SupplierRef 0) (s1 \<lparr>bind = e, pending = []\<rparr>)))))"
    by (intro objs_ok_add)
  also have "objs_ok (objects_at_commit rnd)
      (session_add (ProductRef 2) (session_add (ProductRef 1)
        (session_add (ProductRef 0) (session_add (SupplierRef 0) (s1 \<lparr>bind = e, pending = []\<rparr>))))) =
      objs_ok (objects_at_commit rnd) \<lparr>bind = e, pending = pending_at_commit\<rparr>"
    by (rule objs_ok_pending) (simp add: s1_def session_add_def pending_at_commit_def)
  finally show ?thesis .
qed

text \<open>The three ways the routine can go.\<close>

lemma fill_cases:
  obtains (refused) err where "SessionLocal db = None"
      "create_engine (connection_string db) = Inl err"
      "fill_with_sample_data create_engine rnd clock db st = (Inl err, db, st)"
  | (failed) err db1 where
      "SessionLocal db \<noteq> None \<or> \<not> isl (create_engine (connection_string db))"
      "flush clock (objects_at_commit rnd) pending_at_commit st = Inl err"
      "fill_with_sample_data create_engine rnd clock db st = (Inl err, db1, st)"
  | (stored) st' db1 where
      "SessionLocal db \<noteq> None \<or> \<not> isl (create_engine (connection_string db))"
      "flush clock (objects_at_commit rnd) pending_at_commit st = Inr st'"
      "fill_with_sample_data create_engine rnd clock db st = (Inr (), db1, st')"
proof (cases rule: get_session_cases [of db create_engine])
  case (refused err)
  from refused(3) have "fill_with_sample_data create_engine rnd clock db st = (Inl err, db, st)"
    by (simp add: fill_with_sample_data_def)
  with refused(1,2) show thesis by (rule that(1))
next
  case (connected e)
  note run = fill_session [OF connected(3), of rnd clock st]
  from connected(2)
  have c: "SessionLocal db \<noteq> None \<or> \<not> isl (create_engine (connection_string db))"
    by simp
  show thesis
  proof (cases "flush clock (objects_at_commit rnd) pending_at_commit st")
    case (Inl err)
    with run show thesis by (intro that(2) [OF c Inl]) simp
  next
    case (Inr st')
    with run show thesis by (intro that(3) [OF c Inr]) simp
  qed
next
  case (present e)
  note run = fill_session [OF present(2), of rnd clock st]
  from present(1)
  have c: "SessionLocal db \<noteq> None \<or> \<not> isl (create_engine (connection_string db))"
    by simp
  show thesis
  proof (cases "flush clock (objects_at_commit rnd) pending_at_commit st")
    case (Inl err)
    with run show thesis by (intro that(2) [OF c Inl]) simp
  next
    case (Inr st')
    with run show thesis by (intro that(3) [OF c Inr]) simp
  qed
qed

lemma flush_errors:
  "flush clock h new st = Inl e \<Longrightarrow> e = IntegrityError \<or> e = OperationalError"
  unfolding flush_def Let_def by (simp split: if_splits)

lemma order_numbers_at_commit:
  "map order_number (order_objs (objects_at_commit rnd)) =
     [generate_order_number (rnd 0), generate_order_number (rnd 1)]"
  by (simp add: objects_at_commit_def Order_def)

lemma refs_at_commit:
  "supplier_refs pending_at_commit = [0]" "product_refs pending_at_commit = [0, 1, 2]"
  "order_refs pending_at_commit = [0, 1]" "order_item_refs pending_at_commit = [0, 1, 2, 3]"
  by (simp_all add: pending_at_commit_def)

text \<open>When the flush of the routine succeeds and how it fails.\<close>

lemma order_rows_at_commit:
  "map order_number (map (order_row c (objects_at_commit rnd))
      (enumerate 0 (new_ids (orders st) [0, 1]))) =
      [generate_order_number (rnd 0), generate_order_number (rnd 1)]"
  by (simp add: new_ids_def order_row_def objects_at_commit_def Order_def Let_def upt_rec)

lemma flush_at_commit:
  "flush clock (objects_at_commit rnd) pending_at_commit st =
     (if ''suppliers'' \<notin> set (tables st) \<or> ''orders'' \<notin> set (tables st)
      then Inl OperationalError
      else if \<not> distinct (map order_number (orders st) @
                 [generate_order_number (rnd 0), generate_order_number (rnd 1)])
      then Inl IntegrityError
      else if ''products'' \<notin> set (tables st) \<or> ''order_items'' \<notin> set (tables st)
      then Inl OperationalError
      else flush clock (objects_at_commit rnd) pending_at_commit st)"
  unfolding flush_def Let_def refs_at_commit using order_rows_at_commit [of _ rnd st]
  by simp

lemma flush_at_commit_Inr:
  assumes "set metadata_tables \<subseteq> set (tables st)"
    and "distinct (map order_number (orders st) @
           [generate_order_number (rnd 0), generate_order_number (rnd 1)])"
  shows "\<exists>st'. flush clock (objects_at_commit rnd) pending_at_commit st = Inr st'"
  using assms order_rows_at_commit [of _ rnd st] unfolding flush_def Let_def refs_at_commit
  by (simp add: metadata_tables_def)

lemma flush_at_commit_iff:
  "(\<exists>st'. flush clock (objects_at_commit rnd) pending_at_commit st = Inr st') \<longleftrightarrow>
     set metadata_tables \<subseteq> set (tables st) \<and>
     distinct (map order_number (orders st) @
       [generate_order_number (rnd 0), generate_order_number (rnd 1)])"
proof
  assume "\<exists>st'. flush clock (objects_at_commit rnd) pending_at_commit st = Inr st'"
  then obtain st' where "flush clock (objects_at_commit rnd) pending_at_commit st = Inr st'" ..
  then show "set metadata_tables \<subseteq> set (tables st) \<and>
     distinct (map order_number (orders st) @
       [generate_order_number (rnd 0), generate_order_number (rnd 1)])"
    by (subst (asm) flush_at_commit) (simp add: metadata_tables_def split: if_splits)
next
  assume "set metadata_tables \<subseteq> set (tables st) \<and>
     distinct (map order_number (orders st) @
       [generate_order_number (rnd 0), generate_order_number (rnd 1)])"
  then show "\<exists>st'. flush clock (objects_at_commit rnd) pending_at_commit st = Inr st'"
    using flush_at_commit_Inr by blast
qed

text \<open>The rows the routine adds.\<close>


lemma upt_shift2: "[b..<b + 2] = [b, Suc b]"
  by (simp add: upt_rec)

lemma new_ids_explicit:
  "new_ids rows [0] = [(0, next_id rows)]"
  "new_ids rows [0, 1] = [(0, next_id rows), (1, Suc (next_id rows))]"
  "new_ids rows [0, 1, 2] =
     [(0, next_id rows), (1, Suc (next_id rows)), (2, Suc (Suc (next_id rows)))]"
  "new_ids rows [0, 1, 2, 3] =
     [(0, next_id rows), (1, Suc (next_id rows)), (2, Suc (Suc (next_id rows))),
      (3, Suc (Suc (Suc (next_id rows))))]"
  "new_ids rows [0, Suc 0] = [(0, next_id rows), (1, Suc (next_id rows))]"
  "new_ids rows [0, Suc 0, 2] =
     [(0, next_id rows), (1, Suc (next_id rows)), (2, Suc (Suc (next_id rows)))]"
  "new_ids rows [0, Suc 0, 2, 3] =
     [(0, next_id rows), (1, Suc (next_id rows)), (2, Suc (Suc (next_id rows))),
      (3, Suc (Suc (Suc (next_id rows))))]"
  by (simp_all add: new_ids_def upt_rec)

lemma new_product_rows:
  "map (\<lambda>p. (id' p, product_name p, price p))
     (map (product_row c (objects_at_commit rnd) sids)
        (enumerate 0 (new_ids rows [0, 1, 2]))) =
   [(Some (next_id rows), ''Waosa Product A'', 100),
    (Some (next_id rows + 1), ''Waosa Product B'', 200),
    (Some (next_id rows + 2), ''Waosa Product C'', 150)]"
  by (simp add: new_ids_explicit product_row_def objects_at_commit_def Product_def Let_def
      product.defs)

lemma new_order_rows:
  "map (\<lambda>ord. (id' ord, customer_name ord, total_amount ord, status ord))
     (map (order_row c (objects_at_commit rnd)) (enumerate 0 (new_ids rows [0, 1]))) =
   [(Some (next_id rows), ''Alice Johnson'', Some 400, Some ''completed''),
    (Some (next_id rows + 1), ''Bob Smith'', Some 550, Some ''completed'')]"
  by (simp add: new_ids_explicit order_row_def objects_at_commit_def Order_def Let_def)

lemma new_order_item_rows:
  "map (\<lambda>i. (order_id i, product_id i, quantity i, unit_price i, total_price i))
     (map (order_item_row c (objects_at_commit rnd) (new_ids orows [0, 1])
             (new_ids prows [0, 1, 2]))
        (enumerate 0 (new_ids rows [0, 1, 2, 3]))) =
   [(Some (next_id orows), Some (next_id prows), 2, 100, 200),
    (Some (next_id orows), Some (next_id prows + 1), 1, 200, 200),
    (Some (next_id orows + 1), Some (next_id prows + 2), 3, 150, 450),
    (Some (next_id orows + 1), Some (next_id prows), 1, 100, 100)]"
  by (simp add: new_ids_explicit order_item_row_def objects_at_commit_def OrderItem_def Let_def
      order_item.defs)

lemma flush_rows:
  assumes "flush clock (objects_at_commit rnd) pending_at_commit st = Inr st'"
  shows "tables st' = tables st"
    and "products st' = products st @
           map (product_row (clock ''products'') (objects_at_commit rnd)
                  (new_ids (suppliers st) [0]))
             (enumerate 0 (new_ids (products st) [0, 1, 2]))"
    and "orders st' = orders st @
           map (order_row (clock ''orders'') (objects_at_commit rnd))
             (enumerate 0 (new_ids (orders st) [0, 1]))"
    and "order_items st' = order_items st @
           map (order_item_row (clock ''order_items'') (objects_at_commit rnd)
                  (new_ids (orders st) [0, 1]) (new_ids (products st) [0, 1, 2]))
             (enumerate 0 (new_ids (order_items st) [0, 1, 2, 3]))"
  using assms unfolding flush_def Let_def refs_at_commit
  by (auto split: if_splits)

text \<open>The routine keeps the invariant, whether it succeeds or fails.\<close>

lemma flush_store_inv:
  assumes "store_inv st"
    and "flush clock (objects_at_commit rnd) pending_at_commit st = Inr st'"
  shows "store_inv st'"
proof -
  have fl: "flush clock (objects_at_commit rnd)
      (pending \<lparr>bind = Engine [], pending = pending_at_commit\<rparr>) st = Inr st'"
    using assms(2) by simp
  from assms(1) have inv: "totals_ok st" "line_totals_ok st" "fk_ok st" "rows_ok st"
    by (simp_all add: store_inv_def)
  from flush_preserves [OF fl objs_ok_at_commit inv]
    flush_Inr(4) [OF assms(2), of 2 4]
  show ?thesis
    by (simp add: store_inv_def refs_at_commit upt_rec)
qed

lemma fill_store_inv:
  assumes "store_inv st"
  shows "store_inv (snd (snd (fill_with_sample_data create_engine rnd clock db st)))"
proof (cases rule: fill_cases [of db create_engine rnd clock st])
  case (refused err)
  with assms show ?thesis by simp
next
  case (failed err db1)
  with assms show ?thesis by simp
next
  case (stored st' db1)
  from flush_store_inv [OF assms stored(2)] stored(3) show ?thesis by simp
qed

lemma create_table_fields:
  assumes "create_table t st = Inr st1" and "rows_ok st"
  shows "tables st1 = tables st @ [t]"
    and "suppliers st1 = suppliers st" and "products st1 = products st"
    and "orders st1 = orders st" and "order_items st1 = order_items st"
  using assms
  by (auto simp: create_table_def empty_table_def rows_ok_def split: if_splits)

lemma create_table_store_inv:
  assumes "store_inv st" and "create_table t st = Inr st1"
  shows "store_inv st1"
proof -
  from assms(1) have r: "rows_ok st" by (simp add: store_inv_def)
  note f = create_table_fields [OF assms(2) r]
  from assms(1) show ?thesis
    unfolding store_inv_def totals_ok_def items_of_def line_totals_ok_def fk_ok_def rows_ok_def f
    by simp
qed

lemma create_all_tables_store_inv:
  "store_inv st \<Longrightarrow> create_all_tables ts st = Inr st' \<Longrightarrow> store_inv st'"
proof (induction ts arbitrary: st)
  case Nil
  then show ?case by simp
next
  case (Cons t ts)
  show ?case
  proof (cases "t \<in> set (tables st)")
    case True
    with Cons show ?thesis by simp
  next
    case False
    then obtain st1 where st1: "create_table t st = Inr st1"
      by (simp add: create_table_def)
    with False Cons.prems have run: "create_all_tables ts st1 = Inr st'" by simp
    from Cons.IH [OF create_table_store_inv [OF Cons.prems(1) st1] run] show ?thesis .
  qed
qed

lemma create_tables_store_inv:
  assumes "store_inv st"
  shows "store_inv (snd (snd (create_tables create_engine db st)))"
proof (cases rule: create_tables_cases [of db create_engine st])
  case (refused err)
  with assms show ?thesis by simp
next
  case (connected e st')
  from create_all_tables_store_inv [OF assms connected(3)] connected(4) show ?thesis by simp
next
  case (present st')
  from create_all_tables_store_inv [OF assms present(2)] present(3) show ?thesis by simp
qed

lemma reachable_store_inv: "reachable st \<Longrightarrow> store_inv st"
proof (induction rule: reachable.induct)
  case start
  show ?case
    by (simp add: store_inv_def totals_ok_def line_totals_ok_def fk_ok_def rows_ok_def
        empty_store_def)
next
  case (tables st create_engine db)
  then show ?case by (simp add: create_tables_store_inv)
next
  case (fill st create_engine rnd clock db)
  then show ?case by (simp add: fill_store_inv)
qed

section \<open>What holds of every store\<close>

text \<open>
  C1. In every store the program can produce, the \<^verbatim>\<open>total_amount\<close> of each order row is
  the sum of the \<^verbatim>\<open>total_price\<close> of the item rows of that order. Every store after the one
  in which the order was inserted is such a store, so the equation holds at every point
  after the order is persisted.
\<close>

theorem order_total_is_sum_of_items:
  assumes "reachable st" and "ord \<in> set (orders st)"
  shows "total_amount ord = Some (sum_list (map total_price (items_of st ord)))"
  using reachable_store_inv [OF assms(1)] assms(2)
  by (simp add: store_inv_def totals_ok_def)

text \<open>
  C2. In every store the program can produce, the \<^verbatim>\<open>total_price\<close> of each order item row is
  its quantity times its unit price.
\<close>

theorem item_total_is_quantity_times_price:
  assumes "reachable st" and "i \<in> set (order_items st)"
  shows "total_price i = of_int (quantity i) * unit_price i"
  using reachable_store_inv [OF assms(1)] assms(2)
  by (simp add: store_inv_def line_totals_ok_def)


section \<open>The orders of the routine\<close>

text \<open>
  C5. The routine stores the products A, B and C with the prices 100, 200 and 150, an
  order with the items (A, 2) and (B, 1) whose \<^verbatim>\<open>total_amount\<close> is 400, and an order with
  the items (C, 3) and (A, 1) whose \<^verbatim>\<open>total_amount\<close> is 550: these are the rows a run adds
  to the tables, whatever was in them. A run stores them if and only if it gets a
  session, the four tables exist and the two order numbers are new.
\<close>

theorem sample_order_totals:
  assumes "fill_with_sample_data create_engine rnd clock db st = (r, db1, st1)"
  shows "(r = Inr () \<longleftrightarrow>
            (SessionLocal db \<noteq> None \<or> \<not> isl (create_engine (connection_string db))) \<and>
            set metadata_tables \<subseteq> set (tables st) \<and>
            distinct (map order_number (orders st) @
              [generate_order_number (rnd 0), generate_order_number (rnd 1)])) \<and>
         (r = Inr () \<longrightarrow>
            map (\<lambda>p. (id' p, product_name p, price p))
              (drop (length (products st)) (products st1)) =
              [(Some (next_id (products st)), ''Waosa Product A'', 100),
               (Some (next_id (products st) + 1), ''Waosa Product B'', 200),
               (Some (next_id (products st) + 2), ''Waosa Product C'', 150)] \<and>
            map (\<lambda>ord. (id' ord, customer_name ord, total_amount ord, status ord))
              (drop (length (orders st)) (orders st1)) =
              [(Some (next_id (orders st)), ''Alice Johnson'', Some 400, Some ''completed''),
               (Some (next_id (orders st) + 1), ''Bob Smith'', Some 550, Some ''completed'')] \<and>
            map (\<lambda>i. (order_id i, product_id i, quantity i, unit_price i, total_price i))
              (drop (length (order_items st)) (order_items st1)) =
              [(Some (next_id (orders st)), Some (next_id (products st)), 2, 100, 200),
               (Some (next_id (orders st)), Some (next_id (products st) + 1), 1, 200, 200),
               (Some (next_id (orders st) + 1), Some (next_id (products st) + 2), 3, 150, 450),
               (Some (next_id (orders st) + 1), Some (next_id (products st)), 1, 100, 100)] \<and>
            take (length (products st)) (products st1) = products st \<and>
            take (length (orders st)) (orders st1) = orders st \<and>
            take (length (order_items st)) (order_items st1) = order_items st)"
proof (cases rule: fill_cases [of db create_engine rnd clock st])
  case (refused err)
  with assms show ?thesis by auto
next
  case (failed err db1')
  from failed(2) flush_at_commit_iff [of clock rnd st]
  have "\<not> (set metadata_tables \<subseteq> set (tables st) \<and>
     distinct (map order_number (orders st) @
       [generate_order_number (rnd 0), generate_order_number (rnd 1)]))"
    by simp
  with failed(3) assms show ?thesis by simp
next
  case (stored st' db1')
  from stored(2) flush_at_commit_iff [of clock rnd st]
  have ok: "set metadata_tables \<subseteq> set (tables st) \<and>
     distinct (map order_number (orders st) @
       [generate_order_number (rnd 0), generate_order_number (rnd 1)])"
    by blast
  from stored(3) assms have r: "r = Inr ()" "st1 = st'" by simp_all
  note rows = flush_rows [OF stored(2)]
  have p: "drop (length (products st)) (products st1) =
      map (product_row (clock ''products'') (objects_at_commit rnd)
             (new_ids (suppliers st) [0]))
        (enumerate 0 (new_ids (products st) [0, 1, 2]))"
    and o: "drop (length (orders st)) (orders st1) =
      map (order_row (clock ''orders'') (objects_at_commit rnd))
        (enumerate 0 (new_ids (orders st) [0, 1]))"
    and i: "drop (length (order_items st)) (order_items st1) =
      map (order_item_row (clock ''order_items'') (objects_at_commit rnd)
             (new_ids (orders st) [0, 1]) (new_ids (products st) [0, 1, 2]))
        (enumerate 0 (new_ids (order_items st) [0, 1, 2, 3]))"
    and old: "take (length (products st)) (products st1) = products st"
      "take (length (orders st)) (orders st1) = orders st"
      "take (length (order_items st)) (order_items st1) = order_items st"
    unfolding r rows by simp_all
  show ?thesis
    unfolding p o i new_product_rows new_order_rows new_order_item_rows
    using ok stored(1) r(1) old by blast
qed


section \<open>The listing\<close>

text \<open>
  C9 (amended). \<^verbatim>\<open>get_all_orders\<close> returns all rows of the orders table, each once, in the
  order in which the store yields them: the query has no ordering clause, and the
  result is not sorted by creation time. It returns when it gets a session and the
  table exists.
\<close>

theorem get_all_orders_returns_all:
  assumes "\<And>rows. mset (row_order rows) = mset rows"
    and "SessionLocal db \<noteq> None \<or> \<not> isl (create_engine (connection_string db))"
    and "''orders'' \<in> set (tables st)"
  shows "fst (get_all_orders create_engine row_order db st) = Inr (row_order (orders st)) \<and>
         mset (row_order (orders st)) = mset (orders st)"
  using assms(2,3)
  by (cases rule: get_session_cases [of db create_engine])
    (simp_all add: get_all_orders_def assms(1))

section \<open>The report\<close>

lemma export_loop_eq:
  "export_loop fmt os doc = doc @ concat (map (order_block fmt) os)"
  by (induction os arbitrary: doc)
    (simp_all add: export_body_def order_block_def addElement_def addText_def P_def Let_def)

text \<open>
  C6 (amended). For every list of orders the document is the header block followed by
  one block for each order, in the order of the list; the block of an order consists
  of the order number, the customer, and the amount with the status, and ends with an
  empty paragraph; it has no line items. For the empty list the document is the
  header block alone. The document is written under the file name, in the place of a
  file of that name, when the file can be written, and no other file changes.
\<close>

theorem export_document_blocks:
  "export_orders_to_odt can_write fmt orders_arg filename files =
     (if can_write filename
      then (Inr (),
            files(filename \<mapsto> report_header @ concat (map (order_block fmt) orders_arg)))
      else (Inl OSError, files)) \<and>
   report_header @ concat (map (order_block fmt) []) = report_header \<and>
   order_block fmt ord =
     [order_label @ order_number ord,
      customer_label @ customer_name ord,
      amount_label @ format_float fmt (total_amount ord) @ status_label @
        format_str (status ord),
      []]"
  by (simp add: export_orders_to_odt_def save_def export_loop_eq report_header_def
      order_block_def OpenDocumentText_def addElement_def addText_def P_def Let_def)

section \<open>The sample run\<close>

lemma fresh_store_eq:
  "fresh_store = \<lparr>tables = [''suppliers'', ''orders'', ''products'', ''order_items''],
     suppliers = [], products = [], orders = [], order_items = []\<rparr>"
  by (simp add: fresh_store_def create_tables_def call_create_all_def create_all_def
      metadata_tables_def create_table_def empty_table_def empty_store_def connect_def
      sqlite_only_def sample_db_def DatabaseConnection_def)

lemma connected_db_eq:
  "connected_db = \<lparr>connection_string = ''sqlite:///waosa.db'',
     engine = Some (Engine ''sqlite:///waosa.db''),
     SessionLocal = Some (Sessionmaker (Engine ''sqlite:///waosa.db''))\<rparr>"
  by (simp add: connected_db_def sample_db_def DatabaseConnection_def create_tables_def
      call_create_all_def create_all_def metadata_tables_def create_table_def empty_table_def
      empty_store_def connect_def sqlite_only_def)

lemma create_tables_sample:
  "create_tables sqlite_only sample_db empty_store = (Inr (), connected_db, fresh_store)"
  unfolding fresh_store_eq connected_db_eq
  by (simp add: sample_db_def DatabaseConnection_def create_tables_def
      call_create_all_def create_all_def metadata_tables_def create_table_def empty_table_def
      empty_store_def connect_def sqlite_only_def)

lemma get_session_connected:
  "get_session create_engine connected_db =
     (Inr \<lparr>bind = Engine ''sqlite:///waosa.db'', pending = []\<rparr>, connected_db)"
  by (simp add: connected_db_eq get_session_def call_SessionLocal_def)

lemma sample_numbers:
  "generate_order_number (sample_rnd 0) = ''ORD-00000000''"
  "generate_order_number (sample_rnd 1) = ''ORD-00000001''"
  "generate_order_number (sample_rnd (Suc 0)) = ''ORD-00000001''"
  "generate_order_number (constant_rnd k) = ''ORD-00000000''"
  "generate_order_number (later_rnd 0) = ''ORD-00000002''"
  "generate_order_number (later_rnd 1) = ''ORD-00000003''"
  "generate_order_number (later_rnd (Suc 0)) = ''ORD-00000003''"
  by (simp_all add: sample_rnd_def constant_rnd_def later_rnd_def generate_order_number_def
      hex_def uuid4_def upper_def upper_char_def hex_digit_def upt_rec drop_bit_eq_div
      push_bit_eq_mult)

text \<open>The rows the first run inserts.\<close>

lemma sample_rows:
  "map (supplier_row (sample_clock ''suppliers'') (objects_at_commit sample_rnd))
     (enumerate 0 (new_ids (suppliers fresh_store) [0])) =
         [\<lparr>id' = Some 1, created_at = Some 100, updated_at = Some 100,
           supplier_name = ''Waosa Supplier'', contact_person = Some ''Waosa Manager'',
           email = Some ''manager@waosa.com'', phone = Some ''123-456-7890'',
           address = None\<rparr>]"
  "map (product_row (sample_clock ''products'') (objects_at_commit sample_rnd)
          (new_ids (suppliers fresh_store) [0]))
     (enumerate 0 (new_ids (products fresh_store) [0, 1, 2])) =
         [\<lparr>id' = Some 1, created_at = Some 100, updated_at = Some 100,
           product_name = ''Waosa Product A'', description = None, price = 100,
           product_quantity = Some 50, supplier_id = Some 1\<rparr>,
          \<lparr>id' = Some 2, created_at = Some 101, updated_at = Some 101,
           product_name = ''Waosa Product B'', description = None, price = 200,
           product_quantity = Some 30, supplier_id = Some 1\<rparr>,
          \<lparr>id' = Some 3, created_at = Some 102, updated_at = Some 102,
           product_name = ''Waosa Product C'', description = None, price = 150,
           product_quantity = Some 20, supplier_id = Some 1\<rparr>]"
  "map (order_row (sample_clock ''orders'') (objects_at_commit sample_rnd))
     (enumerate 0 (new_ids (orders fresh_store) [0, 1])) =
         [\<lparr>id' = Some 1, created_at = Some 100, updated_at = Some 100,
           order_number = ''ORD-00000000'', customer_name = ''Alice Johnson'',
           customer_email = Some ''alice@waosa.com'', customer_phone = None,
           total_amount = Some 400, status = Some ''completed''\<rparr>,
          \<lparr>id' = Some 2, created_at = Some 101, updated_at = Some 101,
           order_number = ''ORD-00000001'', customer_name = ''Bob Smith'',
           customer_email = Some ''bob@waosa.com'', customer_phone = None,
           total_amount = Some 550, status = Some ''completed''\<rparr>]"
  "map (order_item_row (sample_clock ''order_items'') (objects_at_commit sample_rnd)
          (new_ids (orders fresh_store) [0, 1]) (new_ids (products fresh_store) [0, 1, 2]))
     (enumerate 0 (new_ids (order_items fresh_store) [0, 1, 2, 3])) =
         [\<lparr>id' = Some 1, created_at = Some 100, updated_at = Some 100,
           order_id = Some 1, product_id = Some 1, quantity = 2, unit_price = 100,
           total_price = 200\<rparr>,
          \<lparr>id' = Some 2, created_at = Some 101, updated_at = Some 101,
           order_id = Some 1, product_id = Some 2, quantity = 1, unit_price = 200,
           total_price = 200\<rparr>,
          \<lparr>id' = Some 3, created_at = Some 102, updated_at = Some 102,
           order_id = Some 2, product_id = Some 3, quantity = 3, unit_price = 150,
           total_price = 450\<rparr>,
          \<lparr>id' = Some 4, created_at = Some 103, updated_at = Some 103,
           order_id = Some 2, product_id = Some 1, quantity = 1, unit_price = 100,
           total_price = 100\<rparr>]"
  unfolding fresh_store_eq
  by (simp_all add: new_ids_def next_id_def objects_at_commit_def enumerate_eq_zip
      supplier_row_def product_row_def order_row_def order_item_row_def
      Supplier_def Product_def OrderItem_def Order_def product.defs order_item.defs
      sample_numbers sample_clock_def upt_rec Let_def)

lemma sample_flush:
  "flush sample_clock (objects_at_commit sample_rnd) pending_at_commit fresh_store =
     Inr \<lparr>tables = [''suppliers'', ''orders'', ''products'', ''order_items''],
       suppliers =
         [\<lparr>id' = Some 1, created_at = Some 100, updated_at = Some 100,
           supplier_name = ''Waosa Supplier'', contact_person = Some ''Waosa Manager'',
           email = Some ''manager@waosa.com'', phone = Some ''123-456-7890'',
           address = None\<rparr>],
       products =
         [\<lparr>id' = Some 1, created_at = Some 100, updated_at = Some 100,
           product_name = ''Waosa Product A'', description = None, price = 100,
           product_quantity = Some 50, supplier_id = Some 1\<rparr>,
          \<lparr>id' = Some 2, created_at = Some 101, updated_at = Some 101,
           product_name = ''Waosa Product B'', description = None, price = 200,
           product_quantity = Some 30, supplier_id = Some 1\<rparr>,
          \<lparr>id' = Some 3, created_at = Some 102, updated_at = Some 102,
           product_name = ''Waosa Product C'', description = None, price = 150,
           product_quantity = Some 20, supplier_id = Some 1\<rparr>],
       orders =
         [\<lparr>id' = Some 1, created_at = Some 100, updated_at = Some 100,
           order_number = ''ORD-00000000'', customer_name = ''Alice Johnson'',
           customer_email = Some ''alice@waosa.com'', customer_phone = None,
           total_amount = Some 400, status = Some ''completed''\<rparr>,
          \<lparr>id' = Some 2, created_at = Some 101, updated_at = Some 101,
           order_number = ''ORD-00000001'', customer_name = ''Bob Smith'',
           customer_email = Some ''bob@waosa.com'', customer_phone = None,
           total_amount = Some 550, status = Some ''completed''\<rparr>],
       order_items =
         [\<lparr>id' = Some 1, created_at = Some 100, updated_at = Some 100,
           order_id = Some 1, product_id = Some 1, quantity = 2, unit_price = 100,
           total_price = 200\<rparr>,
          \<lparr>id' = Some 2, created_at = Some 101, updated_at = Some 101,
           order_id = Some 1, product_id = Some 2, quantity = 1, unit_price = 200,
           total_price = 200\<rparr>,
          \<lparr>id' = Some 3, created_at = Some 102, updated_at = Some 102,
           order_id = Some 2, product_id = Some 3, quantity = 3, unit_price = 150,
           total_price = 450\<rparr>,
          \<lparr>id' = Some 4, created_at = Some 103, updated_at = Some 103,
           order_id = Some 2, product_id = Some 1, quantity = 1, unit_price = 100,
           total_price = 100\<rparr>]\<rparr>"
  unfolding flush_def Let_def refs_at_commit sample_rows
  by (simp add: fresh_store_eq)

lemma sample_run:
  "fill_with_sample_data sqlite_only sample_rnd sample_clock connected_db fresh_store =
     (Inr (), connected_db,
      projr (flush sample_clock (objects_at_commit sample_rnd) pending_at_commit fresh_store))"
  by (simp add: fill_session [OF get_session_connected] sample_flush)

lemma sample_store_eq:
  "sample_store = projr (flush sample_clock (objects_at_commit sample_rnd) pending_at_commit
     fresh_store)"
  by (simp add: sample_store_def sample_run)

lemma reachable_fresh: "reachable fresh_store"
  unfolding fresh_store_def by (intro reachable.intros)

lemma reachable_sample: "reachable sample_store"
  unfolding sample_store_def by (intro reachable.intros reachable_fresh)

lemma sample_orders:
  "orders sample_store =
         [\<lparr>id' = Some 1, created_at = Some 100, updated_at = Some 100,
           order_number = ''ORD-00000000'', customer_name = ''Alice Johnson'',
           customer_email = Some ''alice@waosa.com'', customer_phone = None,
           total_amount = Some 400, status = Some ''completed''\<rparr>,
          \<lparr>id' = Some 2, created_at = Some 101, updated_at = Some 101,
           order_number = ''ORD-00000001'', customer_name = ''Bob Smith'',
           customer_email = Some ''bob@waosa.com'', customer_phone = None,
           total_amount = Some 550, status = Some ''completed''\<rparr>]"
  by (simp add: sample_store_eq sample_flush)

lemma sample_order_items:
  "order_items sample_store =
         [\<lparr>id' = Some 1, created_at = Some 100, updated_at = Some 100,
           order_id = Some 1, product_id = Some 1, quantity = 2, unit_price = 100,
           total_price = 200\<rparr>,
          \<lparr>id' = Some 2, created_at = Some 101, updated_at = Some 101,
           order_id = Some 1, product_id = Some 2, quantity = 1, unit_price = 200,
           total_price = 200\<rparr>,
          \<lparr>id' = Some 3, created_at = Some 102, updated_at = Some 102,
           order_id = Some 2, product_id = Some 3, quantity = 3, unit_price = 150,
           total_price = 450\<rparr>,
          \<lparr>id' = Some 4, created_at = Some 103, updated_at = Some 103,
           order_id = Some 2, product_id = Some 1, quantity = 1, unit_price = 100,
           total_price = 100\<rparr>]"
  by (simp add: sample_store_eq sample_flush)

lemma sample_products:
  "products sample_store =
         [\<lparr>id' = Some 1, created_at = Some 100, updated_at = Some 100,
           product_name = ''Waosa Product A'', description = None, price = 100,
           product_quantity = Some 50, supplier_id = Some 1\<rparr>,
          \<lparr>id' = Some 2, created_at = Some 101, updated_at = Some 101,
           product_name = ''Waosa Product B'', description = None, price = 200,
           product_quantity = Some 30, supplier_id = Some 1\<rparr>,
          \<lparr>id' = Some 3, created_at = Some 102, updated_at = Some 102,
           product_name = ''Waosa Product C'', description = None, price = 150,
           product_quantity = Some 20, supplier_id = Some 1\<rparr>]"
  by (simp add: sample_store_eq sample_flush)

lemma sample_tables: "tables sample_store = metadata_tables"
  by (simp add: sample_store_eq sample_flush metadata_tables_def)

text \<open>The routine on the connection of the sample run.\<close>

lemma fill_connected:
  "fill_with_sample_data create_engine rnd clock connected_db st =
     (case flush clock (objects_at_commit rnd) pending_at_commit st of
        Inl e \<Rightarrow> (Inl e, connected_db, st)
      | Inr st' \<Rightarrow> (Inr (), connected_db, st'))"
  by (rule fill_session [OF get_session_connected]) simp

lemma sample_run_store:
  "fill_with_sample_data sqlite_only sample_rnd sample_clock connected_db fresh_store =
     (Inr (), connected_db, sample_store)"
  by (simp add: sample_run sample_store_eq)





text \<open>The second run, later, with the clock set back.\<close>

lemma second_flush:
  "\<exists>st'. flush set_back_clock (objects_at_commit later_rnd) pending_at_commit sample_store =
     Inr st'"
  by (rule flush_at_commit_Inr)
    (simp_all add: sample_tables sample_orders sample_numbers)

lemma second_run:
  "fill_with_sample_data sqlite_only later_rnd set_back_clock connected_db sample_store =
     (Inr (), connected_db, second_store)"
  using second_flush by (auto simp: second_store_def fill_connected)

lemma second_orders:
  "map created_at (orders second_store) = [Some 100, Some 101, Some 0, Some 1]"
  "map order_number (orders second_store) =
     [''ORD-00000000'', ''ORD-00000001'', ''ORD-00000002'', ''ORD-00000003'']"
  "tables second_store = metadata_tables"
proof -
  obtain st' where fl:
    "flush set_back_clock (objects_at_commit later_rnd) pending_at_commit sample_store = Inr st'"
    using second_flush ..
  then have st': "second_store = st'"
    by (simp add: second_store_def fill_connected)
  note rows = flush_rows [OF fl]
  show "map created_at (orders second_store) = [Some 100, Some 101, Some 0, Some 1]"
    unfolding st' rows
    by (simp add: sample_orders new_ids_explicit order_row_def Let_def set_back_clock_def)
  show "map order_number (orders second_store) =
     [''ORD-00000000'', ''ORD-00000001'', ''ORD-00000002'', ''ORD-00000003'']"
    unfolding st' rows
    by (simp add: sample_orders new_ids_explicit order_row_def Let_def objects_at_commit_def
        Order_def sample_numbers)
  show "tables second_store = metadata_tables"
    unfolding st' rows by (rule sample_tables)
qed

lemma reachable_second: "reachable second_store"
  unfolding second_store_def by (intro reachable.intros reachable_sample)

section \<open>The statements on the sample run\<close>

theorem order_total_is_sum_of_items_sample:
  "reachable sample_store \<and>
   hd (orders sample_store) \<in> set (orders sample_store) \<and>
   map total_price (items_of sample_store (hd (orders sample_store))) = [200, 200] \<and>
   total_amount (hd (orders sample_store)) =
     Some (sum_list (map total_price (items_of sample_store (hd (orders sample_store)))))"
  using order_total_is_sum_of_items [OF reachable_sample, of "hd (orders sample_store)"]
  by (simp add: reachable_sample sample_orders sample_order_items items_of_def)

theorem item_total_is_quantity_times_price_sample:
  "reachable sample_store \<and>
   hd (order_items sample_store) \<in> set (order_items sample_store) \<and>
   quantity (hd (order_items sample_store)) = 2 \<and>
   unit_price (hd (order_items sample_store)) = 100 \<and>
   total_price (hd (order_items sample_store)) =
     of_int (quantity (hd (order_items sample_store))) *
       unit_price (hd (order_items sample_store))"
  using item_total_is_quantity_times_price [OF reachable_sample,
      of "hd (order_items sample_store)"]
  by (simp add: reachable_sample sample_order_items)



theorem sample_order_totals_sample:
  "fill_with_sample_data sqlite_only sample_rnd sample_clock connected_db fresh_store =
     (Inr (), connected_db, sample_store) \<and>
   map (\<lambda>p. (id' p, product_name p, price p))
     (drop (length (products fresh_store)) (products sample_store)) =
     [(Some 1, ''Waosa Product A'', 100), (Some 2, ''Waosa Product B'', 200),
      (Some 3, ''Waosa Product C'', 150)] \<and>
   map (\<lambda>ord. (id' ord, customer_name ord, total_amount ord, status ord))
     (drop (length (orders fresh_store)) (orders sample_store)) =
     [(Some 1, ''Alice Johnson'', Some 400, Some ''completed''),
      (Some 2, ''Bob Smith'', Some 550, Some ''completed'')] \<and>
   map (\<lambda>i. (order_id i, product_id i, quantity i, unit_price i, total_price i))
     (drop (length (order_items fresh_store)) (order_items sample_store)) =
     [(Some 1, Some 1, 2, 100, 200), (Some 1, Some 2, 1, 200, 200),
      (Some 2, Some 3, 3, 150, 450), (Some 2, Some 1, 1, 100, 100)]"
proof -
  have n: "next_id (products fresh_store) = 1" "next_id (orders fresh_store) = 1"
    by (simp_all add: fresh_store_eq next_id_def)
  from sample_order_totals [OF sample_run_store] sample_run_store show ?thesis
    by (simp add: n)
qed




lemma create_tables_again:
  "create_tables sqlite_only connected_db fresh_store = (Inr (), connected_db, fresh_store)"
  "create_tables sqlite_only connected_db sample_store = (Inr (), connected_db, sample_store)"
proof -
  have "create_all_tables metadata_tables fresh_store = Inr fresh_store"
    by (rule create_all_tables_present) (simp add: fresh_store_eq metadata_tables_def)
  then show "create_tables sqlite_only connected_db fresh_store =
      (Inr (), connected_db, fresh_store)"
    by (simp add: connected_db_eq create_tables_def call_create_all_def create_all_def)
  have "create_all_tables metadata_tables sample_store = Inr sample_store"
    by (rule create_all_tables_present) (simp add: sample_tables)
  then show "create_tables sqlite_only connected_db sample_store =
      (Inr (), connected_db, sample_store)"
    by (simp add: connected_db_eq create_tables_def call_create_all_def create_all_def)
qed

lemma create_tables_refused:
  "create_tables sqlite_only (DatabaseConnection ''not a url'') st =
     (Inl ArgumentError, DatabaseConnection ''not a url'', st)"
  by (simp add: create_tables_def connect_def sqlite_only_def DatabaseConnection_def)

theorem create_tables_idempotent_sample:
  "create_tables sqlite_only sample_db empty_store = (Inr (), connected_db, fresh_store) \<and>
   create_tables sqlite_only connected_db fresh_store = (Inr (), connected_db, fresh_store) \<and>
   tables fresh_store = [''suppliers'', ''orders'', ''products'', ''order_items''] \<and>
   distinct (tables fresh_store) \<and> kept empty_store fresh_store \<and>
   create_tables sqlite_only connected_db sample_store = (Inr (), connected_db, sample_store) \<and>
   kept sample_store sample_store \<and>
   create_tables sqlite_only (DatabaseConnection ''not a url'') sample_store =
     (Inl ArgumentError, DatabaseConnection ''not a url'', sample_store)"
proof -
  have t: "tables fresh_store = [''suppliers'', ''orders'', ''products'', ''order_items'']"
    by (simp add: fresh_store_eq)
  have e: "distinct (tables empty_store)"
    by (simp add: empty_store_def)
  from create_tables_idempotent [OF create_tables_sample create_tables_again(1)] e
  have 1: "distinct (tables fresh_store)" "kept empty_store fresh_store"
    by blast+
  from create_tables_idempotent [OF create_tables_again(2) create_tables_again(2)]
  have 2: "kept sample_store sample_store"
    by blast
  from create_tables_sample create_tables_again create_tables_refused [of sample_store] t 1 2
  show ?thesis by blast
qed

theorem connects_on_demand_sample:
  "engine sample_db = None \<and> SessionLocal sample_db = None \<and>
   sqlite_only (connection_string sample_db) = Inr (Engine ''sqlite:///waosa.db'') \<and>
   fst (get_session sqlite_only sample_db) =
     Inr \<lparr>bind = Engine ''sqlite:///waosa.db'', pending = []\<rparr> \<and>
   engine (snd (get_session sqlite_only sample_db)) = Some (Engine ''sqlite:///waosa.db'') \<and>
   SessionLocal (snd (get_session sqlite_only sample_db)) =
     Some (Sessionmaker (Engine ''sqlite:///waosa.db'')) \<and>
   fst (create_tables sqlite_only sample_db empty_store) = Inr () \<and>
   engine (fst (snd (create_tables sqlite_only sample_db empty_store))) =
     Some (Engine ''sqlite:///waosa.db'') \<and>
   SessionLocal (fst (snd (create_tables sqlite_only sample_db empty_store))) =
     Some (Sessionmaker (Engine ''sqlite:///waosa.db'')) \<and>
   engine (DatabaseConnection ''not a url'') = None \<and>
   SessionLocal (DatabaseConnection ''not a url'') = None \<and>
   sqlite_only (connection_string (DatabaseConnection ''not a url'')) = Inl ArgumentError \<and>
   get_session sqlite_only (DatabaseConnection ''not a url'') =
     (Inl ArgumentError, DatabaseConnection ''not a url'') \<and>
   create_tables sqlite_only (DatabaseConnection ''not a url'') empty_store =
     (Inl ArgumentError, DatabaseConnection ''not a url'', empty_store)"
proof -
  have a: "engine sample_db = None" "SessionLocal sample_db = None"
    "sqlite_only (connection_string sample_db) = Inr (Engine ''sqlite:///waosa.db'')"
    by (simp_all add: sample_db_def DatabaseConnection_def sqlite_only_def)
  have b: "engine (DatabaseConnection ''not a url'') = None"
    "SessionLocal (DatabaseConnection ''not a url'') = None"
    "sqlite_only (connection_string (DatabaseConnection ''not a url'')) = Inl ArgumentError"
    by (simp_all add: DatabaseConnection_def sqlite_only_def)
  from connects_on_demand [OF a(1,2), of sqlite_only empty_store]
    connects_on_demand [OF b(1,2), of sqlite_only empty_store] a b
  show ?thesis by blast
qed

theorem get_all_orders_returns_all_sample:
  "SessionLocal connected_db = Some (Sessionmaker (Engine ''sqlite:///waosa.db'')) \<and>
   ''orders'' \<in> set (tables sample_store) \<and>
   fst (get_all_orders sqlite_only rev connected_db sample_store) =
     Inr (rev (orders sample_store)) \<and>
   mset (rev (orders sample_store)) = mset (orders sample_store)"
  using get_all_orders_returns_all [of rev connected_db sqlite_only sample_store]
  by (simp add: connected_db_eq sample_tables metadata_tables_def)

text \<open>
  C9 as it is stated fails: after a second run with the clock set back, the listing, in
  the order of insertion, is not in the order of the creation times.
\<close>

theorem listing_not_ordered_by_creation:
  "fill_with_sample_data sqlite_only later_rnd set_back_clock connected_db sample_store =
     (Inr (), connected_db, second_store) \<and>
   fst (get_all_orders sqlite_only id connected_db second_store) =
     Inr (orders second_store) \<and>
   map created_at (orders second_store) = [Some 100, Some 101, Some 0, Some 1] \<and>
   \<not> ordered_by_creation (orders second_store)"
  by (simp add: second_run second_orders ordered_by_creation_def get_all_orders_def
      get_session_connected metadata_tables_def)

lemma str_float_sample: "str_float 400 = ''400.0''" "str_float 550 = ''550.0''"
  by (simp_all add: str_float_def)

lemma sample_document:
  "export_orders_to_odt any_file str_float (orders sample_store) ''orders.odt'' Map.empty =
     (Inr (),
      [''orders.odt'' \<mapsto>
         [title_text, [],
          order_label @ ''ORD-00000000'', customer_label @ ''Alice Johnson'',
          amount_label @ ''400.0'' @ status_label @ ''completed'', [],
          order_label @ ''ORD-00000001'', customer_label @ ''Bob Smith'',
          amount_label @ ''550.0'' @ status_label @ ''completed'', []]])"
  by (simp add: export_orders_to_odt_def save_def export_loop_eq order_block_def
      OpenDocumentText_def addElement_def addText_def P_def Let_def any_file_def sample_orders
      format_float_def format_str_def str_float_sample)

text \<open>
  C6 as it is stated fails: the report of the two orders of the sample run has the
  header and two blocks of four paragraphs, and no paragraph names a product, although
  the first order has two items.
\<close>

theorem report_has_no_line_items:
  "export_orders_to_odt any_file str_float (orders sample_store) ''orders.odt'' Map.empty =
     (Inr (),
      [''orders.odt'' \<mapsto>
         [title_text, [],
          order_label @ ''ORD-00000000'', customer_label @ ''Alice Johnson'',
          amount_label @ ''400.0'' @ status_label @ ''completed'', [],
          order_label @ ''ORD-00000001'', customer_label @ ''Bob Smith'',
          amount_label @ ''550.0'' @ status_label @ ''completed'', []]]) \<and>
   map quantity (items_of sample_store (hd (orders sample_store))) = [2, 1] \<and>
   map (product_name_of sample_store) (items_of sample_store (hd (orders sample_store))) =
     [Some ''Waosa Product A'', Some ''Waosa Product B''] \<and>
   filter (occurs_in ''Waosa Product'')
     [title_text, [],
      order_label @ ''ORD-00000000'', customer_label @ ''Alice Johnson'',
      amount_label @ ''400.0'' @ status_label @ ''completed'', [],
      order_label @ ''ORD-00000001'', customer_label @ ''Bob Smith'',
      amount_label @ ''550.0'' @ status_label @ ''completed'', []] = []"
  by (simp add: sample_document)
    (simp add: sample_orders sample_order_items sample_products items_of_def
      product_name_of_def title_text_def order_label_def customer_label_def amount_label_def
      status_label_def)

end
